theory Spec2Isabelle
  imports Main "HOL-Library.Sublist"
begin

section \<open>Errors and formatting\<close>

text \<open>
  Go errors as values. \<open>ErrWrap p e\<close> is \<open>fmt.Errorf("p: %w", e)\<close>, \<open>ErrMsg\<close> an error
  that wraps nothing, \<open>ExitError code sig\<close> an \<open>*ssh.ExitError\<close> seen through its two
  accessors \<open>ExitStatus()\<close> and \<open>Signal()\<close>, \<open>StepFailureError e\<close> the result of
  \<open>eventline.NewStepFailureError(e)\<close>, \<open>ContextCanceled\<close> the value \<open>context.Canceled\<close>,
  \<open>InvalidWebhookEventError\<close> the struct of webhooks.go, and \<open>NilPointerPanic\<close> the
  run-time panic of a method call through a nil client.
\<close>

datatype error =
    ErrMsg string
  | ErrWrap string error
  | ExitError int string
  | StepFailureError error
  | ContextCanceled
  | InvalidWebhookEventError string
  | NilPointerPanic

text \<open>The verb \<open>%d\<close> of package fmt on an int: decimal digits, a minus sign when negative.\<close>

fun digits10 :: "nat \<Rightarrow> string" where
  "digits10 n =
     (if n < 10 then [''0123456789'' ! n]
      else digits10 (n div 10) @ [''0123456789'' ! (n mod 10)])"

declare digits10.simps [simp del]

definition fmt_d :: "int \<Rightarrow> string" where
  "fmt_d i = (if i < 0 then CHR ''-'' # digits10 (nat (- i)) else digits10 (nat i))"

section \<open>The store gateway\<close>

datatype json =
    JNull
  | JBool bool
  | JNumber int
  | JString string
  | JArray "json list"
  | JObject "(string \<times> json) list"

text \<open>The three event payloads webhooks.go builds.\<close>

datatype event_data =
    RawEvent string string json
  | RepositoryCreationEvent string string
  | RepositoryDeletionEvent string string

text \<open>
  An event row, with the fields section 3 of the specification gives it (the generated
  identifier left out).
\<close>

record event =
  ev_created_at :: nat
  ev_event_time :: nat
  ev_connector :: string
  ev_name :: string
  ev_data :: event_data
  ev_subscription_id :: "nat option"
  ev_project_id :: nat
  ev_processed :: bool

datatype repo_cond = CondTRUE | CondRepositoryEqArg3

text \<open>
  Every call that reaches the store is written to a log, in order, so that claims about
  the order of calls and about transaction boundaries can be stated.
\<close>

datatype pg_op =
    TxBegin
  | TxCommit
  | TxRollback
  | TakeAdvisoryLock nat nat
  | QueryObjects repo_cond "string list"
  | InsertEvent event
  | LoadJobExecutionForScheduling
  | StartJobExecution nat
  | LogInfo string

text \<open>
  A connection: the data it sees, the log of calls, and which calls the store will
  refuse (\<open>pg_fault\<close> gives the error of a call that fails).
\<close>

record 'd pg =
  pg_data :: 'd
  pg_log :: "pg_op list"
  pg_fault :: "pg_op \<Rightarrow> error option"

definition pg_call :: "pg_op \<Rightarrow> 'd pg \<Rightarrow> 'd pg" where
  "pg_call op conn = conn\<lparr>pg_log := pg_log conn @ [op]\<rparr>"

text \<open>
  Modelled from the spec: \<open>Pg.WithTx\<close> of the go-daemon library is not among the sources.
  Section 4.A: within a transaction, execute a closure receiving a connection handle; on
  closure success, commit; on error, rollback. The closure returns its error together
  with the variables it captured (\<open>'a\<close>) and the connection; a rollback restores the data
  the transaction started from.
\<close>

definition WithTx ::
  "('d pg \<Rightarrow> error option \<times> 'a \<times> 'd pg) \<Rightarrow> 'a \<Rightarrow> 'd pg \<Rightarrow> error option \<times> 'a \<times> 'd pg" where
  "WithTx fn captured pg0 =
     (case pg_fault pg0 TxBegin of
        Some err \<Rightarrow> (Some err, captured, pg0)
      | None \<Rightarrow>
          (case fn (pg_call TxBegin pg0) of
             (Some err, v, conn) \<Rightarrow>
               (Some err, v, pg_call TxRollback (conn\<lparr>pg_data := pg_data pg0\<rparr>))
           | (None, v, conn) \<Rightarrow>
               (case pg_fault conn TxCommit of
                  Some err \<Rightarrow> (Some err, v, pg_call TxRollback (conn\<lparr>pg_data := pg_data pg0\<rparr>))
                | None \<Rightarrow> (None, v, pg_call TxCommit conn))))"

section \<open>The GitHub connector: webhooks.go\<close>

datatype subscription_status = Active | Inactive | Terminating

text \<open>A row of \<open>subscriptions\<close>, with the twelve columns the query selects.\<close>

record subscription =
  sub_id :: nat
  sub_project_id :: nat
  sub_job_id :: nat
  sub_identity_id :: "nat option"
  sub_connector :: string
  sub_event :: string
  sub_parameters :: string
  sub_creation_time :: nat
  sub_status :: subscription_status
  sub_update_delay :: "nat option"
  sub_last_update :: "nat option"
  sub_next_update :: "nat option"

text \<open>A row of \<open>c_github_subscriptions\<close>.\<close>

record github_subscription =
  gs_id :: nat
  gs_organization :: string
  gs_repository :: string

record github_db =
  subscriptions :: "subscription list"
  c_github_subscriptions :: "github_subscription list"
  events :: "event list"

record parameters =
  Organization :: string
  Repository :: string

record connector =
  Def_Name :: string
  webhookKey :: string

record organization =
  Login :: "string option"

record repository =
  Name :: "string option"
  CreatedAt :: "nat option"
  UpdatedAt :: "nat option"

record repository_event =
  Action :: "string option"
  Org :: "organization option"
  Repo :: "repository option"

text \<open>What \<open>github.ParseWebHook\<close> returns, as far as the type switch looks at it.\<close>

datatype webhook_event =
    RepositoryEvent repository_event
  | PushEvent
  | OtherEvent

record request =
  req_header :: "(string \<times> string) list"
  req_body :: string

text \<open>
  The functions webhooks.go calls and that are not among the sources are parameters:
  HMAC-SHA256 (\<open>crypto/hmac\<close> over \<open>crypto/sha256\<close>: key, then message),
  \<open>json.Unmarshal\<close>, \<open>github.ParseWebHook\<close>, \<open>Parameters.Target\<close> and the clock.
\<close>

record env =
  hmac_sha256 :: "string \<Rightarrow> string \<Rightarrow> string"
  json_Unmarshal :: "string \<Rightarrow> error + json"
  ParseWebHook :: "string \<Rightarrow> string \<Rightarrow> error + webhook_event"
  Target :: "parameters \<Rightarrow> string"
  time_Now :: nat

subsection \<open>encoding/hex\<close>

definition hextable :: string where
  "hextable = ''0123456789abcdef''"

definition hex_EncodeToString :: "string \<Rightarrow> string" where
  "hex_EncodeToString src =
     concat (map (\<lambda>v. [hextable ! (of_char v div 16), hextable ! (of_char v mod 16)]) src)"

definition fromHexChar :: "char \<Rightarrow> nat option" where
  "fromHexChar c =
     (let n = (of_char c :: nat) in
      if 48 \<le> n \<and> n \<le> 57 then Some (n - 48)
      else if 97 \<le> n \<and> n \<le> 102 then Some (n - 97 + 10)
      else if 65 \<le> n \<and> n \<le> 70 then Some (n - 65 + 10)
      else None)"

fun hex_DecodeString :: "string \<Rightarrow> string option" where
  "hex_DecodeString [] = Some []"
| "hex_DecodeString [a] = None"
| "hex_DecodeString (a # b # rest) =
     (case fromHexChar a of
        None \<Rightarrow> None
      | Some x \<Rightarrow>
          (case fromHexChar b of
             None \<Rightarrow> None
           | Some y \<Rightarrow>
               (case hex_DecodeString rest of
                  None \<Rightarrow> None
                | Some r \<Rightarrow> Some (char_of (x * 16 + y) # r))))"

subsection \<open>The secret and its verification\<close>

definition WebhookSecret :: "env \<Rightarrow> connector \<Rightarrow> parameters \<Rightarrow> string" where
  "WebhookSecret E c params =
     (let key = webhookKey c;
          value = Target E params;
          code = hmac_sha256 E key value
      in hex_EncodeToString code)"

definition Header_Get :: "request \<Rightarrow> string \<Rightarrow> string" where
  "Header_Get req k = (case map_of (req_header req) k of None \<Rightarrow> [] | Some v \<Rightarrow> v)"

definition DeliveryID :: "request \<Rightarrow> string" where
  "DeliveryID req = Header_Get req ''X-GitHub-Delivery''"

definition WebHookType :: "request \<Rightarrow> string" where
  "WebHookType req = Header_Get req ''X-GitHub-Event''"

text \<open>
  The signature header GitHub sends for a body signed with a secret: the prefix
  \<open>sha256=\<close> and the hex encoding of the HMAC of the raw body.
\<close>

definition sign_body :: "env \<Rightarrow> string \<Rightarrow> string \<Rightarrow> string" where
  "sign_body E secretToken body = ''sha256='' @ hex_EncodeToString (hmac_sha256 E secretToken body)"

text \<open>
  Modelled from the spec: \<open>github.ValidatePayload\<close> of the go-github library is not among
  the sources. Section 4.E: the handler reads the provider-specified signature header and
  recomputes HMAC over the raw body. The header is \<open>X-Hub-Signature-256\<close>, its value the
  prefix \<open>sha256=\<close> followed by the hex digits of the code; the payload returned is
  the raw body.
\<close>

definition ValidatePayload :: "env \<Rightarrow> request \<Rightarrow> string \<Rightarrow> error + string" where
  "ValidatePayload E req secretToken =
     (let signature = Header_Get req ''X-Hub-Signature-256'' in
      if take 7 signature \<noteq> ''sha256='' then Inl (ErrMsg ''missing signature'')
      else
        (case hex_DecodeString (drop 7 signature) of
           None \<Rightarrow> Inl (ErrMsg ''error decoding signature'')
         | Some mac \<Rightarrow>
             if mac = hmac_sha256 E secretToken (req_body req) then Inr (req_body req)
             else Inl (ErrMsg ''payload signature check failed'')))"

subsection \<open>The subscription matcher\<close>

text \<open>
  The SQL of \<open>LoadSubscriptionsByParams\<close>: \<open>subscriptions AS es JOIN
  c_github_subscriptions AS gs ON gs.id = es.id WHERE es.connector = 'github' AND
  es.event = $1 AND gs.organization = $2 AND <repoCond>\<close>, where \<open>repoCond\<close> is
  \<open>TRUE\<close> or \<open>gs.repository = $3\<close>. The statement is refused when the number of
  arguments is not the number of placeholders.
\<close>

definition where_clause ::
  "repo_cond \<Rightarrow> string list \<Rightarrow> subscription \<Rightarrow> github_subscription \<Rightarrow> bool" where
  "where_clause repoCond args es gs =
     (sub_connector es = ''github''
      \<and> sub_event es = args ! 0
      \<and> gs_organization gs = args ! 1
      \<and> (case repoCond of CondTRUE \<Rightarrow> True | CondRepositoryEqArg3 \<Rightarrow> gs_repository gs = args ! 2))"

definition select_subscriptions ::
  "github_db \<Rightarrow> repo_cond \<Rightarrow> string list \<Rightarrow> subscription list option" where
  "select_subscriptions db repoCond args =
     (if length args \<noteq> (case repoCond of CondTRUE \<Rightarrow> 2 | CondRepositoryEqArg3 \<Rightarrow> 3) then None
      else Some (concat (map (\<lambda>es.
             map (\<lambda>gs. es)
               (filter (\<lambda>gs. gs_id gs = sub_id es \<and> where_clause repoCond args es gs)
                  (c_github_subscriptions db)))
             (subscriptions db))))"

definition pg_QueryObjects ::
  "github_db pg \<Rightarrow> repo_cond \<Rightarrow> string list \<Rightarrow> (error + subscription list) \<times> github_db pg" where
  "pg_QueryObjects conn repoCond args =
     (let conn' = pg_call (QueryObjects repoCond args) conn in
      case pg_fault conn (QueryObjects repoCond args) of
        Some err \<Rightarrow> (Inl err, conn')
      | None \<Rightarrow>
          (case select_subscriptions (pg_data conn) repoCond args of
             None \<Rightarrow> (Inl (ErrMsg ''wrong number of arguments''), conn')
           | Some subs \<Rightarrow> (Inr subs, conn')))"

definition LoadSubscriptionsByParams ::
  "github_db pg \<Rightarrow> string \<Rightarrow> parameters \<Rightarrow> (error + subscription list) \<times> github_db pg" where
  "LoadSubscriptionsByParams conn ename params =
     (let repoCond = (if Repository params \<noteq> [] then CondRepositoryEqArg3 else CondTRUE);
          args = [ename, Organization params];
          args = (if Repository params \<noteq> [] then args @ [Repository params] else args)
      in case pg_QueryObjects conn repoCond args of
           (Inl err, conn') \<Rightarrow> (Inl err, conn')
         | (Inr subs, conn') \<Rightarrow> (Inr subs, conn'))"

subsection \<open>Creating events\<close>

text \<open>
  Modelled from the spec: \<open>Subscription.NewEvent\<close> and \<open>Event.Insert\<close> of package eventline
  are not among the sources. Section 4.F: for each match, a new bound event is inserted
  with \<open>subscription_id\<close> set, \<open>event_time\<close> from the payload when available else
  \<open>created_at\<close>, and \<open>data\<close> the typed event.
\<close>

definition NewEvent ::
  "env \<Rightarrow> subscription \<Rightarrow> string \<Rightarrow> string \<Rightarrow> nat option \<Rightarrow> event_data \<Rightarrow> event" where
  "NewEvent E sub cname ename eventTime eventData =
     \<lparr>ev_created_at = time_Now E,
      ev_event_time = (case eventTime of None \<Rightarrow> time_Now E | Some t \<Rightarrow> t),
      ev_connector = cname,
      ev_name = ename,
      ev_data = eventData,
      ev_subscription_id = Some (sub_id sub),
      ev_project_id = sub_project_id sub,
      ev_processed = False\<rparr>"

definition Insert :: "event \<Rightarrow> github_db pg \<Rightarrow> error option \<times> github_db pg" where
  "Insert ev conn =
     (let conn' = pg_call (InsertEvent ev) conn in
      case pg_fault conn (InsertEvent ev) of
        Some err \<Rightarrow> (Some err, conn')
      | None \<Rightarrow> (None, conn'\<lparr>pg_data := (pg_data conn)\<lparr>events := events (pg_data conn) @ [ev]\<rparr>\<rparr>))"

text \<open>The loop \<open>for _, sub := range subs\<close> of \<open>CreateEvents\<close>.\<close>

fun insert_events ::
  "env \<Rightarrow> connector \<Rightarrow> string \<Rightarrow> nat option \<Rightarrow> event_data \<Rightarrow> subscription list
   \<Rightarrow> github_db pg \<Rightarrow> error option \<times> github_db pg" where
  "insert_events E c ename eventTime eventData [] conn = (None, conn)"
| "insert_events E c ename eventTime eventData (sub # subs) conn =
     (let event = NewEvent E sub (Def_Name c) ename eventTime eventData in
      case Insert event conn of
        (Some err, conn') \<Rightarrow> (Some (ErrWrap ''cannot insert event'' err), conn')
      | (None, conn') \<Rightarrow> insert_events E c ename eventTime eventData subs conn')"

definition CreateEvents_tx ::
  "env \<Rightarrow> connector \<Rightarrow> string \<Rightarrow> nat option \<Rightarrow> event_data \<Rightarrow> parameters
   \<Rightarrow> github_db pg \<Rightarrow> error option \<times> unit \<times> github_db pg" where
  "CreateEvents_tx E c ename eventTime eventData params conn =
     (case LoadSubscriptionsByParams conn ename params of
        (Inl err, conn') \<Rightarrow> (Some (ErrWrap ''cannot load subscriptions'' err), (), conn')
      | (Inr subs, conn') \<Rightarrow>
          (case insert_events E c ename eventTime eventData subs conn' of
             (r, conn'') \<Rightarrow> (r, (), conn'')))"

definition CreateEvents ::
  "env \<Rightarrow> connector \<Rightarrow> string \<Rightarrow> nat option \<Rightarrow> event_data \<Rightarrow> parameters
   \<Rightarrow> github_db pg \<Rightarrow> error option \<times> github_db pg" where
  "CreateEvents E c ename eventTime eventData params pg0 =
     (case WithTx (CreateEvents_tx E c ename eventTime eventData params) () pg0 of
        (r, u, pg1) \<Rightarrow> (r, pg1))"

subsection \<open>Processing a webhook request\<close>

definition processWebhookEventRepositoryCreated ::
  "env \<Rightarrow> connector \<Rightarrow> repository_event \<Rightarrow> parameters \<Rightarrow> github_db pg
   \<Rightarrow> error option \<times> github_db pg" where
  "processWebhookEventRepositoryCreated E c e params pg0 =
     (case Org e of
        None \<Rightarrow> (Some (InvalidWebhookEventError ''missing organization''), pg0)
      | Some org \<Rightarrow>
     (case Login org of
        None \<Rightarrow> (Some (InvalidWebhookEventError ''missing organization login''), pg0)
      | Some login \<Rightarrow>
     (case Repo e of
        None \<Rightarrow> (Some (InvalidWebhookEventError ''missing repository''), pg0)
      | Some repo \<Rightarrow>
     (case Name repo of
        None \<Rightarrow> (Some (InvalidWebhookEventError ''missing repository name''), pg0)
      | Some name \<Rightarrow>
          (let eventTime = CreatedAt repo;
               eventData = RepositoryCreationEvent login name
           in case CreateEvents E c ''repository_creation'' eventTime eventData params pg0 of
                (Some err, pg1) \<Rightarrow> (Some (ErrWrap ''cannot create event'' err), pg1)
              | (None, pg1) \<Rightarrow> (None, pg1))))))"

definition processWebhookEventRepositoryDeleted ::
  "env \<Rightarrow> connector \<Rightarrow> repository_event \<Rightarrow> parameters \<Rightarrow> github_db pg
   \<Rightarrow> error option \<times> github_db pg" where
  "processWebhookEventRepositoryDeleted E c e params pg0 =
     (case Org e of
        None \<Rightarrow> (Some (InvalidWebhookEventError ''missing organization''), pg0)
      | Some org \<Rightarrow>
     (case Login org of
        None \<Rightarrow> (Some (InvalidWebhookEventError ''missing organization login''), pg0)
      | Some login \<Rightarrow>
     (case Repo e of
        None \<Rightarrow> (Some (InvalidWebhookEventError ''missing repository''), pg0)
      | Some repo \<Rightarrow>
     (case Name repo of
        None \<Rightarrow> (Some (InvalidWebhookEventError ''missing repository name''), pg0)
      | Some name \<Rightarrow>
          (let eventTime = UpdatedAt repo;
               eventData = RepositoryDeletionEvent login name
           in case CreateEvents E c ''repository_deletion'' eventTime eventData params pg0 of
                (Some err, pg1) \<Rightarrow> (Some (ErrWrap ''cannot create event'' err), pg1)
              | (None, pg1) \<Rightarrow> (None, pg1))))))"

definition processWebhookEventPush ::
  "env \<Rightarrow> connector \<Rightarrow> parameters \<Rightarrow> github_db pg \<Rightarrow> error option \<times> github_db pg" where
  "processWebhookEventPush E c params pg0 = (None, pg0)"

definition dispatch_event ::
  "env \<Rightarrow> connector \<Rightarrow> webhook_event \<Rightarrow> parameters \<Rightarrow> github_db pg
   \<Rightarrow> error option \<times> github_db pg" where
  "dispatch_event E c event params pg0 =
     (case event of
        RepositoryEvent e \<Rightarrow>
          (case Action e of
             None \<Rightarrow> (Some (InvalidWebhookEventError ''missing action''), pg0)
           | Some action \<Rightarrow>
               if action = ''created'' then processWebhookEventRepositoryCreated E c e params pg0
               else if action = ''deleted'' then processWebhookEventRepositoryDeleted E c e params pg0
               else (None, pg0))
      | PushEvent \<Rightarrow> processWebhookEventPush E c params pg0
      | OtherEvent \<Rightarrow> (None, pg0))"

definition ProcessWebhookRequest ::
  "env \<Rightarrow> connector \<Rightarrow> request \<Rightarrow> parameters \<Rightarrow> github_db pg \<Rightarrow> error option \<times> github_db pg" where
  "ProcessWebhookRequest E c req params pg0 =
     (let secret = WebhookSecret E c params in
      case ValidatePayload E req secret of
        Inl err \<Rightarrow> (Some (ErrWrap ''invalid signature'' err), pg0)
      | Inr payload \<Rightarrow>
          (case json_Unmarshal E payload of
             Inl err \<Rightarrow> (Some (ErrWrap ''cannot decode payload'' err), pg0)
           | Inr rawMsg \<Rightarrow>
               (let rawEventData = RawEvent (DeliveryID req) (WebHookType req) rawMsg in
                case CreateEvents E c ''raw'' None rawEventData params pg0 of
                  (Some err, pg1) \<Rightarrow> (Some (ErrWrap ''cannot create event'' err), pg1)
                | (None, pg1) \<Rightarrow>
                    (case ParseWebHook E (WebHookType req) payload of
                       Inl err \<Rightarrow> (Some (ErrWrap ''cannot parse webhook event'' err), pg1)
                     | Inr event \<Rightarrow> dispatch_event E c event params pg1))))"

section \<open>The job scheduler: job_scheduler.go\<close>

datatype job_execution_status = Created | Started | Aborted | Successful | Failed

record job_execution =
  je_id :: nat
  je_project_id :: nat
  je_status :: job_execution_status
  je_scheduled_at :: nat

text \<open>
  The service the scheduler runs in. The two lock identifiers and, of
  \<open>eventline.LoadJobExecutionForScheduling\<close> and \<open>Service.StartJobExecution\<close>, what
  they compute when the store accepts the call, are not among the sources: they are
  parameters, over any type \<open>'d\<close> of stored data.
\<close>

record 'd service =
  PgAdvisoryLockId1 :: nat
  PgAdvisoryLockId2JobScheduling :: nat
  select_for_scheduling :: "'d \<Rightarrow> job_execution option"
  start_execution :: "'d \<Rightarrow> job_execution \<Rightarrow> nat \<Rightarrow> 'd"

text \<open>The verb \<open>%q\<close> of package fmt, on a string with no character to escape.\<close>

definition fmt_q :: "string \<Rightarrow> string" where
  "fmt_q s = CHR 0x22 # s @ [CHR 0x22]"

definition pg_TakeAdvisoryLock :: "'d pg \<Rightarrow> nat \<Rightarrow> nat \<Rightarrow> error option \<times> 'd pg" where
  "pg_TakeAdvisoryLock conn id1 id2 =
     (pg_fault conn (TakeAdvisoryLock id1 id2), pg_call (TakeAdvisoryLock id1 id2) conn)"

definition eventline_LoadJobExecutionForScheduling ::
  "'d service \<Rightarrow> 'd pg \<Rightarrow> (error + job_execution option) \<times> 'd pg" where
  "eventline_LoadJobExecutionForScheduling S conn =
     (case pg_fault conn LoadJobExecutionForScheduling of
        Some err \<Rightarrow> (Inl err, pg_call LoadJobExecutionForScheduling conn)
      | None \<Rightarrow>
          (Inr (select_for_scheduling S (pg_data conn)), pg_call LoadJobExecutionForScheduling conn))"

definition Service_StartJobExecution ::
  "'d service \<Rightarrow> 'd pg \<Rightarrow> job_execution \<Rightarrow> nat \<Rightarrow> error option \<times> 'd pg" where
  "Service_StartJobExecution S conn je scope =
     (let conn' = pg_call (StartJobExecution (je_id je)) conn in
      case pg_fault conn (StartJobExecution (je_id je)) of
        Some err \<Rightarrow> (Some err, conn')
      | None \<Rightarrow> (None, conn'\<lparr>pg_data := start_execution S (pg_data conn) je scope\<rparr>))"

definition NewProjectScope :: "nat \<Rightarrow> nat" where
  "NewProjectScope projectId = projectId"

text \<open>
  The closure \<open>ProcessJob\<close> passes to \<open>WithTx\<close>. The variable \<open>processed\<close> it captures
  is the middle component of the result.
\<close>

definition ProcessJob_tx :: "'d service \<Rightarrow> 'd pg \<Rightarrow> error option \<times> bool \<times> 'd pg" where
  "ProcessJob_tx S conn =
     (let id1 = PgAdvisoryLockId1 S;
          id2 = PgAdvisoryLockId2JobScheduling S
      in case pg_TakeAdvisoryLock conn id1 id2 of
           (Some err, conn1) \<Rightarrow> (Some (ErrWrap ''cannot take advisory lock'' err), False, conn1)
         | (None, conn1) \<Rightarrow>
             (case eventline_LoadJobExecutionForScheduling S conn1 of
                (Inl err, conn2) \<Rightarrow> (Some (ErrWrap ''cannot load job execution'' err), False, conn2)
              | (Inr None, conn2) \<Rightarrow> (None, False, conn2)
              | (Inr (Some je), conn2) \<Rightarrow>
                  (let conn3 = pg_call (LogInfo (''processing job execution ''
                                  @ fmt_q (fmt_d (int (je_id je))))) conn2;
                       scope = NewProjectScope (je_project_id je)
                   in case Service_StartJobExecution S conn3 je scope of
                        (Some err, conn4) \<Rightarrow>
                          (Some (ErrWrap (''cannot start job execution ''
                                   @ fmt_q (fmt_d (int (je_id je)))) err), False, conn4)
                      | (None, conn4) \<Rightarrow> (None, True, conn4))))"

definition ProcessJob :: "'d service \<Rightarrow> 'd pg \<Rightarrow> (bool \<times> error option) \<times> 'd pg" where
  "ProcessJob S pg0 =
     (case WithTx (ProcessJob_tx S) False pg0 of
        (Some err, processed, pg1) \<Rightarrow> ((False, Some err), pg1)
      | (None, processed, pg1) \<Rightarrow> ((processed, None), pg1))"

section \<open>The SSH runner: runner.go\<close>

datatype ssh_client = SshClient
datatype sftp_client = SftpClient

record runner_cfg =
  RootDirectory :: string

text \<open>
  \<open>eventline.Runner\<close>, as far as runner.go reads it. \<open>Environment\<close> is a Go map, listed
  here in the order the \<open>range\<close> loop visits it. \<open>StepCommandString\<close> is not among
  the sources: a parameter, from the step execution, the step and the root path.
\<close>

record eventline_runner =
  Cfg :: runner_cfg
  Environment :: "(string \<times> string) list"
  StepCommandString :: "nat \<Rightarrow> string \<Rightarrow> string \<Rightarrow> string"

record runner =
  runner :: eventline_runner
  rootPath :: string
  sshClient :: "ssh_client option"
  sftpClient :: "sftp_client option"

datatype ssh_op =
    Connect
  | SftpNewClient
  | UploadFileSet
  | DeleteDirectoryContent string
  | SftpClose
  | SshClose
  | NewSession
  | Setenv string string
  | Start string
  | Wait
  | Signal string
  | SessionClose
  | LogError string

text \<open>
  The remote host and the connection to it: the paths that exist there, the trace of
  calls made, and which calls fail.
\<close>

record remote =
  files :: "string list"
  trace :: "ssh_op list"
  ssh_fault :: "ssh_op \<Rightarrow> error option"

definition ssh_call :: "ssh_op \<Rightarrow> remote \<Rightarrow> remote" where
  "ssh_call op W = W\<lparr>trace := trace W @ [op]\<rparr>"

text \<open>\<open>path.Join\<close> of two clean, non-empty elements.\<close>

definition path_Join :: "string \<Rightarrow> string \<Rightarrow> string" where
  "path_Join a b = a @ ''/'' @ b"

definition NewRunner :: "eventline_runner \<Rightarrow> string \<Rightarrow> runner" where
  "NewRunner r jeId =
     (let cfg = Cfg r;
          rootDirPath = RootDirectory cfg;
          rootPath = path_Join rootDirPath jeId
      in \<lparr>runner = r, rootPath = rootPath, sshClient = None, sftpClient = None\<rparr>)"

definition DirPath :: "runner \<Rightarrow> string" where
  "DirPath r = rootPath r"

text \<open>
  Modelled from the spec: \<open>connect\<close>, \<open>uploadFileSet\<close> and \<open>deleteDirectoryContent\<close> of
  the runner are not among the sources. Section 4.C: the SSH variant uploads the file
  set via SFTP under \<open>{root}/{execution_id}/\<close> and on terminate deletes the contents of
  the root directory, never the root itself. A path is in the content of a directory
  when it extends the directory's path by a separator and a non-empty rest.
\<close>

definition connect :: "runner \<Rightarrow> remote \<Rightarrow> (error + ssh_client) \<times> remote" where
  "connect r W =
     (case ssh_fault W Connect of
        Some err \<Rightarrow> (Inl err, ssh_call Connect W)
      | None \<Rightarrow> (Inr SshClient, ssh_call Connect W))"

definition sftp_NewClient :: "ssh_client option \<Rightarrow> remote \<Rightarrow> (error + sftp_client) \<times> remote" where
  "sftp_NewClient c W =
     (case ssh_fault W SftpNewClient of
        Some err \<Rightarrow> (Inl err, ssh_call SftpNewClient W)
      | None \<Rightarrow> (Inr SftpClient, ssh_call SftpNewClient W))"

definition uploadFileSet :: "runner \<Rightarrow> string list \<Rightarrow> remote \<Rightarrow> error option \<times> remote" where
  "uploadFileSet r fileSet W =
     (case ssh_fault W UploadFileSet of
        Some err \<Rightarrow> (Some err, ssh_call UploadFileSet W)
      | None \<Rightarrow>
          (None, (ssh_call UploadFileSet W)
                   \<lparr>files := files W @ rootPath r # map (path_Join (rootPath r)) fileSet\<rparr>))"

definition in_directory :: "string \<Rightarrow> string \<Rightarrow> bool" where
  "in_directory dirPath p =
     (length dirPath + 1 < length p \<and> take (length dirPath + 1) p = dirPath @ ''/'')"

definition deleteDirectoryContent :: "runner \<Rightarrow> string \<Rightarrow> remote \<Rightarrow> error option \<times> remote" where
  "deleteDirectoryContent r dirPath W =
     (case ssh_fault W (DeleteDirectoryContent dirPath) of
        Some err \<Rightarrow> (Some err, ssh_call (DeleteDirectoryContent dirPath) W)
      | None \<Rightarrow>
          (None, (ssh_call (DeleteDirectoryContent dirPath) W)
                   \<lparr>files := filter (\<lambda>p. \<not> in_directory dirPath p) (files W)\<rparr>))"

text \<open>
  \<open>Init\<close>. On an error of \<open>sftp.NewClient\<close> the field \<open>sftpClient\<close> receives the nil the
  library returns with its error.
\<close>

definition Init :: "runner \<Rightarrow> string list \<Rightarrow> remote \<Rightarrow> error option \<times> runner \<times> remote" where
  "Init r fileSet W =
     (case connect r W of
        (Inl err, W1) \<Rightarrow> (Some err, r, W1)
      | (Inr client, W1) \<Rightarrow>
          (let r1 = r\<lparr>sshClient := Some client\<rparr> in
           case sftp_NewClient (sshClient r1) W1 of
             (Inl err, W2) \<Rightarrow>
               (Some (ErrWrap ''cannot create sftp client'' err), r1\<lparr>sftpClient := None\<rparr>, W2)
           | (Inr sftp, W2) \<Rightarrow>
               (let r2 = r1\<lparr>sftpClient := Some sftp\<rparr> in
                case uploadFileSet r2 fileSet W2 of
                  (Some err, W3) \<Rightarrow> (Some err, r2, W3)
                | (None, W3) \<Rightarrow> (None, r2, W3))))"

definition Terminate :: "runner \<Rightarrow> remote \<Rightarrow> remote" where
  "Terminate r W =
     (let cfg = Cfg (runner r);
          W1 = (case sftpClient r of
                  None \<Rightarrow> W
                | Some sftp \<Rightarrow>
                    (case deleteDirectoryContent r (RootDirectory cfg) W of
                       (Some err, W') \<Rightarrow>
                         ssh_call SftpClose
                           (ssh_call (LogError (''cannot delete directory '' @ fmt_q (rootPath r))) W')
                     | (None, W') \<Rightarrow> ssh_call SftpClose W'))
      in case sshClient r of
           None \<Rightarrow> W1
         | Some client \<Rightarrow> ssh_call SshClose W1)"

text \<open>\<open>errors.As(err, &exitErr)\<close>: the first \<open>*ssh.ExitError\<close> in the chain of wrapped errors.\<close>

fun errors_As_ExitError :: "error \<Rightarrow> (int \<times> string) option" where
  "errors_As_ExitError (ExitError code sigName) = Some (code, sigName)"
| "errors_As_ExitError (ErrWrap p e) = errors_As_ExitError e"
| "errors_As_ExitError e = None"

definition translateExitError :: "int \<Rightarrow> string \<Rightarrow> error" where
  "translateExitError code sigName =
     (if code \<noteq> 0 then ErrMsg (''program exited with status '' @ fmt_d code)
      else if sigName \<noteq> [] then ErrMsg (''program killed by signal '' @ sigName)
      else ExitError code sigName)"

text \<open>The loop \<open>for k, v := range r.runner.Environment\<close> of \<open>ExecuteStep\<close>.\<close>

fun setenv_all :: "(string \<times> string) list \<Rightarrow> remote \<Rightarrow> error option \<times> remote" where
  "setenv_all [] W = (None, W)"
| "setenv_all ((k, v) # kvs) W =
     (case ssh_fault W (Setenv k v) of
        Some err \<Rightarrow>
          (Some (ErrWrap (''cannot set environment variable '' @ fmt_q k) err),
           ssh_call (Setenv k v) W)
      | None \<Rightarrow> setenv_all kvs (ssh_call (Setenv k v) W))"

text \<open>
  Which case of the \<open>select\<close> statement runs: \<open>session.Wait()\<close> has delivered its result
  (nil when the command ran and exited with status zero, an error otherwise), or the
  context was done before that.
\<close>

datatype select_case =
    CaseErrChan "error option"
  | CaseCtxDone

definition ssh_SIGKILL :: string where
  "ssh_SIGKILL = ''KILL''"

definition ExecuteStep ::
  "runner \<Rightarrow> nat \<Rightarrow> string \<Rightarrow> select_case \<Rightarrow> remote \<Rightarrow> error option \<times> remote" where
  "ExecuteStep r se step sel W =
     (case sshClient r of
        None \<Rightarrow> (Some NilPointerPanic, W)
      | Some client \<Rightarrow>
     (case ssh_fault W NewSession of
        Some err \<Rightarrow> (Some (ErrWrap ''cannot open session'' err), ssh_call NewSession W)
      | None \<Rightarrow>
     (case setenv_all (Environment (runner r)) (ssh_call NewSession W) of
        (Some err, W2) \<Rightarrow> (Some err, W2)
      | (None, W2) \<Rightarrow>
     (let cmd = StepCommandString (runner r) se step (rootPath r) in
      case ssh_fault W2 (Start cmd) of
        Some err \<Rightarrow> (Some (ErrWrap ''cannot start command'' err), ssh_call (Start cmd) W2)
      | None \<Rightarrow>
     (let W3 = ssh_call (Start cmd) W2 in
      case sel of
        CaseErrChan waitErr \<Rightarrow>
          (let err = (case waitErr of
                        None \<Rightarrow> None
                      | Some e \<Rightarrow>
                          (case errors_As_ExitError e of
                             Some (code, sigName) \<Rightarrow>
                               Some (StepFailureError (translateExitError code sigName))
                           | None \<Rightarrow> Some e))
           in (err, ssh_call SessionClose (ssh_call Wait W3)))
      | CaseCtxDone \<Rightarrow>
          (let W4 = ssh_call (Signal ssh_SIGKILL) W3;
               W5 = (case ssh_fault W3 (Signal ssh_SIGKILL) of
                       Some err \<Rightarrow> ssh_call (LogError ''cannot kill program'') W4
                     | None \<Rightarrow> W4)
           in (Some ContextCanceled, ssh_call SessionClose W5)))))))"

section \<open>Example data\<close>

definition ex_sub :: "nat \<Rightarrow> string \<Rightarrow> subscription_status \<Rightarrow> subscription" where
  "ex_sub i ename st =
     \<lparr>sub_id = i, sub_project_id = 1, sub_job_id = 1, sub_identity_id = None,
      sub_connector = ''github'', sub_event = ename, sub_parameters = [],
      sub_creation_time = 0, sub_status = st, sub_update_delay = None,
      sub_last_update = None, sub_next_update = None\<rparr>"

definition ex_gs :: "nat \<Rightarrow> string \<Rightarrow> github_subscription" where
  "ex_gs i repo = \<lparr>gs_id = i, gs_organization = ''acme'', gs_repository = repo\<rparr>"

definition ex_db :: github_db where
  "ex_db =
     \<lparr>subscriptions = [ex_sub 1 ''raw'' Active, ex_sub 2 ''repository_creation'' Inactive,
                       ex_sub 3 ''repository_creation'' Active],
      c_github_subscriptions = [ex_gs 1 ''tool'', ex_gs 2 ''tool'', ex_gs 3 ''other''],
      events = []\<rparr>"

definition ex_conn :: "'d \<Rightarrow> 'd pg" where
  "ex_conn db = \<lparr>pg_data = db, pg_log = [], pg_fault = (\<lambda>op. None)\<rparr>"

lemmas ex_defs = ex_conn_def ex_db_def ex_sub_def ex_gs_def

definition ex_eventline_runner :: eventline_runner where
  "ex_eventline_runner =
     \<lparr>Cfg = \<lparr>RootDirectory = ''/tmp/x''\<rparr>,
      Environment = [(''A'', ''1'')],
      StepCommandString = (\<lambda>se step root. step)\<rparr>"

definition ex_remote :: remote where
  "ex_remote = \<lparr>files = [''/tmp'', ''/tmp/x'', ''/tmp/x/7'', ''/tmp/x/7/run.sh'', ''/tmp/y''],
                trace = [], ssh_fault = (\<lambda>op. None)\<rparr>"

definition ex_runner :: runner where
  "ex_runner = (NewRunner ex_eventline_runner ''7'')\<lparr>sshClient := Some SshClient\<rparr>"

lemmas ex_ssh_defs = ex_eventline_runner_def ex_remote_def ex_runner_def NewRunner_def path_Join_def

definition ex_remote_no_sftp :: remote where
  "ex_remote_no_sftp =
     ex_remote\<lparr>ssh_fault := (\<lambda>op. if op = SftpNewClient then Some (ErrMsg ''no subsystem'') else None)\<rparr>"

definition ex_service :: "job_execution list service" where
  "ex_service =
     \<lparr>PgAdvisoryLockId1 = 1, PgAdvisoryLockId2JobScheduling = 2,
      select_for_scheduling = List.find (\<lambda>je. je_status je = Created),
      start_execution = (\<lambda>d je scope. map (\<lambda>x. if je_id x = je_id je then x\<lparr>je_status := Started\<rparr> else x) d)\<rparr>"

definition ex_conn_lock_refused :: "'d \<Rightarrow> 'd pg" where
  "ex_conn_lock_refused db =
     \<lparr>pg_data = db, pg_log = [],
      pg_fault = (\<lambda>op. if op = TakeAdvisoryLock 1 2 then Some (ErrMsg ''lock refused'') else None)\<rparr>"

definition ex_executions :: "job_execution list" where
  "ex_executions =
     [\<lparr>je_id = 1, je_project_id = 1, je_status = Successful, je_scheduled_at = 0\<rparr>,
      \<lparr>je_id = 2, je_project_id = 1, je_status = Started, je_scheduled_at = 1\<rparr>]"

definition ex_env :: env where
  "ex_env =
     \<lparr>hmac_sha256 = (\<lambda>key msg. take 1 key @ take 1 msg),
      json_Unmarshal = (\<lambda>payload. if payload = ''{}'' then Inr (JObject []) else Inl (ErrMsg ''invalid character'')),
      ParseWebHook = (\<lambda>messageType payload.
         if messageType = ''repository''
         then Inr (RepositoryEvent \<lparr>Action = Some ''created'',
                Org = Some \<lparr>Login = Some ''acme''\<rparr>,
                Repo = Some \<lparr>Name = Some ''other'', CreatedAt = Some 5, UpdatedAt = None\<rparr>\<rparr>)
         else if messageType = ''repository-no-action''
         then Inr (RepositoryEvent \<lparr>Action = None, Org = None, Repo = None\<rparr>)
         else Inr OtherEvent),
      Target = (\<lambda>params. Organization params @ ''/'' @ Repository params),
      time_Now = 9\<rparr>"

definition ex_connector :: connector where
  "ex_connector = \<lparr>Def_Name = ''github'', webhookKey = ''k''\<rparr>"

text \<open>
  The rows the statement of \<open>LoadSubscriptionsByParams\<close> selects in a database, and
  the call that carries the statement: the condition and the arguments are built as the
  function builds them.
\<close>

definition matching_subscriptions :: "github_db \<Rightarrow> string \<Rightarrow> parameters \<Rightarrow> subscription list" where
  "matching_subscriptions db ename params =
     (case select_subscriptions db
             (if Repository params \<noteq> [] then CondRepositoryEqArg3 else CondTRUE)
             (if Repository params \<noteq> [] then [ename, Organization params, Repository params]
              else [ename, Organization params]) of
        None \<Rightarrow> []
      | Some subs \<Rightarrow> subs)"

definition load_query :: "string \<Rightarrow> parameters \<Rightarrow> pg_op" where
  "load_query ename params =
     QueryObjects (if Repository params \<noteq> [] then CondRepositoryEqArg3 else CondTRUE)
       (if Repository params \<noteq> [] then [ename, Organization params, Repository params]
        else [ename, Organization params])"

definition ex_params :: parameters where
  "ex_params = \<lparr>Organization = ''acme'', Repository = []\<rparr>"

definition ex_req :: "string \<Rightarrow> request" where
  "ex_req messageType =
     \<lparr>req_header = [(''X-GitHub-Delivery'', ''d1''), (''X-GitHub-Event'', messageType),
                    (''X-Hub-Signature-256'',
                     sign_body ex_env (WebhookSecret ex_env ex_connector ex_params) ''{}'')],
      req_body = ''{}''\<rparr>"

definition ex_db_no_raw :: github_db where
  "ex_db_no_raw = ex_db\<lparr>subscriptions := [ex_sub 3 ''repository_creation'' Active]\<rparr>"

definition ex_conn_refusing :: "github_db \<Rightarrow> github_db pg" where
  "ex_conn_refusing db =
     \<lparr>pg_data = db, pg_log = [],
      pg_fault = (\<lambda>op. case op of
                          InsertEvent ev \<Rightarrow>
                            if ev_name ev = ''repository_creation'' then Some (ErrMsg ''refused'') else None
                        | _ \<Rightarrow> None)\<rparr>"

definition ex_req_bad :: request where
  "ex_req_bad =
     \<lparr>req_header = [(''X-GitHub-Delivery'', ''d1''), (''X-GitHub-Event'', ''repository''),
                    (''X-Hub-Signature-256'', ''sha256=00'')],
      req_body = ''{}''\<rparr>"

section \<open>The subscription matcher\<close>

lemma select_subscriptions_set:
  assumes "select_subscriptions db repoCond args = Some subs"
  shows "set subs = {es \<in> set (subscriptions db). \<exists>gs \<in> set (c_github_subscriptions db).
                 gs_id gs = sub_id es \<and> where_clause repoCond args es gs}"
proof -
  from assms have s: "subs = concat (map (\<lambda>es. map (\<lambda>gs. es)
               (filter (\<lambda>gs. gs_id gs = sub_id es \<and> where_clause repoCond args es gs)
                  (c_github_subscriptions db))) (subscriptions db))"
    by (simp add: select_subscriptions_def split: if_splits)
  show ?thesis unfolding s by (force simp: image_iff)
qed

lemma Load_no_fault:
  assumes "pg_fault conn (QueryObjects (if Repository params \<noteq> [] then CondRepositoryEqArg3 else CondTRUE)
              (if Repository params \<noteq> [] then [ename, Organization params, Repository params]
               else [ename, Organization params])) = None"
  shows "\<exists>subs. LoadSubscriptionsByParams conn ename params =
           (Inr subs, pg_call (QueryObjects (if Repository params \<noteq> [] then CondRepositoryEqArg3 else CondTRUE)
              (if Repository params \<noteq> [] then [ename, Organization params, Repository params]
               else [ename, Organization params])) conn)
         \<and> select_subscriptions (pg_data conn)
             (if Repository params \<noteq> [] then CondRepositoryEqArg3 else CondTRUE)
             (if Repository params \<noteq> [] then [ename, Organization params, Repository params]
               else [ename, Organization params]) = Some subs"
  using assms
  by (auto simp: LoadSubscriptionsByParams_def pg_QueryObjects_def Let_def select_subscriptions_def)

lemma Load_Inr:
  assumes "LoadSubscriptionsByParams conn ename params = (Inr subs, conn')"
  shows "select_subscriptions (pg_data conn)
     (if Repository params \<noteq> [] then CondRepositoryEqArg3 else CondTRUE)
     (if Repository params \<noteq> [] then [ename, Organization params, Repository params]
               else [ename, Organization params])
     = Some subs"
  using assms
  by (auto simp: LoadSubscriptionsByParams_def pg_QueryObjects_def Let_def
           split: option.splits sum.splits prod.splits if_splits)

text \<open>
  Claim C1, as the code has it. Every subscription \<open>LoadSubscriptionsByParams\<close> returns
  is a row of \<open>subscriptions\<close> whose connector is \<open>github\<close> and whose event is the given
  event name, joined to a row of \<open>c_github_subscriptions\<close> with the same id, the
  organization of the parameters and, when the parameters name a repository, that
  repository. The query has no condition on the status.
\<close>

theorem LoadSubscriptionsByParams_rows:
  assumes "LoadSubscriptionsByParams conn ename params = (Inr subs, conn')"
    and "es \<in> set subs"
  shows "es \<in> set (subscriptions (pg_data conn))
         \<and> sub_connector es = ''github'' \<and> sub_event es = ename
         \<and> (\<exists>gs \<in> set (c_github_subscriptions (pg_data conn)).
               gs_id gs = sub_id es \<and> gs_organization gs = Organization params
               \<and> (Repository params \<noteq> [] \<longrightarrow> gs_repository gs = Repository params))"
  using select_subscriptions_set [OF Load_Inr [OF assms(1)]] assms(2)
  by (auto simp: where_clause_def split: if_splits)

theorem LoadSubscriptionsByParams_rows_witness:
  "ex_sub 3 ''repository_creation'' Active \<in> set (subscriptions (pg_data (ex_conn ex_db)))
   \<and> sub_connector (ex_sub 3 ''repository_creation'' Active) = ''github''
   \<and> sub_event (ex_sub 3 ''repository_creation'' Active) = ''repository_creation''
   \<and> (\<exists>gs \<in> set (c_github_subscriptions (pg_data (ex_conn ex_db))).
         gs_id gs = sub_id (ex_sub 3 ''repository_creation'' Active)
         \<and> gs_organization gs = ''acme'' \<and> gs_repository gs = ''other'')"
proof -
  have l: "LoadSubscriptionsByParams (ex_conn ex_db) ''repository_creation''
             \<lparr>Organization = ''acme'', Repository = ''other''\<rparr>
           = (Inr [ex_sub 3 ''repository_creation'' Active],
              pg_call (QueryObjects CondRepositoryEqArg3 [''repository_creation'', ''acme'', ''other''])
                (ex_conn ex_db))"
    by (simp add: LoadSubscriptionsByParams_def pg_QueryObjects_def Let_def ex_defs
        select_subscriptions_def where_clause_def)
  have m: "ex_sub 3 ''repository_creation'' Active \<in> set [ex_sub 3 ''repository_creation'' Active]"
    by simp
  show ?thesis using LoadSubscriptionsByParams_rows [OF l m] by simp
qed

text \<open>
  Claim C1 as stated fails: with the organization \<open>acme\<close> and the repository \<open>tool\<close>, the
  matcher returns subscription 2, whose status is \<open>inactive\<close>.
\<close>

theorem LoadSubscriptionsByParams_inactive_counterexample:
  "fst (LoadSubscriptionsByParams (ex_conn ex_db) ''repository_creation''
          \<lparr>Organization = ''acme'', Repository = ''tool''\<rparr>)
     = Inr [ex_sub 2 ''repository_creation'' Inactive]
   \<and> sub_status (ex_sub 2 ''repository_creation'' Inactive) = Inactive"
  by (simp add: LoadSubscriptionsByParams_def pg_QueryObjects_def Let_def ex_defs
      select_subscriptions_def where_clause_def pg_call_def)

text \<open>
  Claim C10. When the store accepts the statement, the matcher returns a result. With an
  empty repository in the parameters the statement sent has the condition \<open>TRUE\<close> and two
  arguments, and the result is every subscription of the connector and event name joined
  to a row of the organization, whatever its repository; with a non-empty repository the
  statement compares \<open>gs.repository\<close> with the third argument and the result is the
  subscriptions joined to a row with exactly that repository.
\<close>

theorem LoadSubscriptionsByParams_repository:
  assumes "\<forall>op. pg_fault conn op = None"
  shows "\<exists>subs. fst (LoadSubscriptionsByParams conn ename params) = Inr subs
     \<and> pg_log (snd (LoadSubscriptionsByParams conn ename params)) = pg_log conn @
         [if Repository params = [] then QueryObjects CondTRUE [ename, Organization params]
          else QueryObjects CondRepositoryEqArg3 [ename, Organization params, Repository params]]
     \<and> (Repository params = [] \<longrightarrow>
          set subs = {es \<in> set (subscriptions (pg_data conn)).
             sub_connector es = ''github'' \<and> sub_event es = ename
             \<and> (\<exists>gs \<in> set (c_github_subscriptions (pg_data conn)).
                   gs_id gs = sub_id es \<and> gs_organization gs = Organization params)})
     \<and> (Repository params \<noteq> [] \<longrightarrow>
          set subs = {es \<in> set (subscriptions (pg_data conn)).
             sub_connector es = ''github'' \<and> sub_event es = ename
             \<and> (\<exists>gs \<in> set (c_github_subscriptions (pg_data conn)).
                   gs_id gs = sub_id es \<and> gs_organization gs = Organization params
                   \<and> gs_repository gs = Repository params)})"
proof -
  from assms have nf: "pg_fault conn (QueryObjects (if Repository params \<noteq> [] then CondRepositoryEqArg3 else CondTRUE)
              (if Repository params \<noteq> [] then [ename, Organization params, Repository params]
               else [ename, Organization params])) = None" by simp
  from Load_no_fault [OF nf] obtain subs where
    l: "LoadSubscriptionsByParams conn ename params =
           (Inr subs, pg_call (QueryObjects (if Repository params \<noteq> [] then CondRepositoryEqArg3 else CondTRUE)
              (if Repository params \<noteq> [] then [ename, Organization params, Repository params]
               else [ename, Organization params])) conn)"
    and s: "select_subscriptions (pg_data conn)
             (if Repository params \<noteq> [] then CondRepositoryEqArg3 else CondTRUE)
             (if Repository params \<noteq> [] then [ename, Organization params, Repository params]
               else [ename, Organization params]) = Some subs" by blast
  have a: "fst (LoadSubscriptionsByParams conn ename params) = Inr subs" using l by simp
  have b: "pg_log (snd (LoadSubscriptionsByParams conn ename params)) = pg_log conn @
         [if Repository params = [] then QueryObjects CondTRUE [ename, Organization params]
          else QueryObjects CondRepositoryEqArg3 [ename, Organization params, Repository params]]"
    using l by (simp add: pg_call_def)
  have c: "Repository params = [] \<longrightarrow>
          set subs = {es \<in> set (subscriptions (pg_data conn)).
             sub_connector es = ''github'' \<and> sub_event es = ename
             \<and> (\<exists>gs \<in> set (c_github_subscriptions (pg_data conn)).
                   gs_id gs = sub_id es \<and> gs_organization gs = Organization params)}"
    using select_subscriptions_set [OF s] by (auto simp: where_clause_def)
  have d: "Repository params \<noteq> [] \<longrightarrow>
          set subs = {es \<in> set (subscriptions (pg_data conn)).
             sub_connector es = ''github'' \<and> sub_event es = ename
             \<and> (\<exists>gs \<in> set (c_github_subscriptions (pg_data conn)).
                   gs_id gs = sub_id es \<and> gs_organization gs = Organization params
                   \<and> gs_repository gs = Repository params)}"
    using select_subscriptions_set [OF s] by (auto simp: where_clause_def)
  from a b c d show ?thesis by blast
qed

theorem LoadSubscriptionsByParams_repository_witness:
  "fst (LoadSubscriptionsByParams (ex_conn ex_db) ''repository_creation''
          \<lparr>Organization = ''acme'', Repository = []\<rparr>)
     = Inr [ex_sub 2 ''repository_creation'' Inactive, ex_sub 3 ''repository_creation'' Active]
   \<and> (\<exists>subs. fst (LoadSubscriptionsByParams (ex_conn ex_db) ''repository_creation''
                    \<lparr>Organization = ''acme'', Repository = []\<rparr>) = Inr subs
         \<and> set subs = {es \<in> set (subscriptions ex_db).
             sub_connector es = ''github'' \<and> sub_event es = ''repository_creation''
             \<and> (\<exists>gs \<in> set (c_github_subscriptions ex_db).
                   gs_id gs = sub_id es \<and> gs_organization gs = ''acme'')})"
proof -
  have h: "\<forall>op. pg_fault (ex_conn ex_db) op = None"
    by (simp add: ex_conn_def)
  have e: "fst (LoadSubscriptionsByParams (ex_conn ex_db) ''repository_creation''
                  \<lparr>Organization = ''acme'', Repository = []\<rparr>)
             = Inr [ex_sub 2 ''repository_creation'' Inactive, ex_sub 3 ''repository_creation'' Active]"
    by (simp add: LoadSubscriptionsByParams_def pg_QueryObjects_def Let_def ex_defs
        select_subscriptions_def where_clause_def)
  have d: "pg_data (ex_conn ex_db) = ex_db"
    by (simp add: ex_conn_def)
  from LoadSubscriptionsByParams_repository
         [OF h, of "''repository_creation''" "\<lparr>Organization = ''acme'', Repository = []\<rparr>"]
  have "\<exists>subs. fst (LoadSubscriptionsByParams (ex_conn ex_db) ''repository_creation''
                    \<lparr>Organization = ''acme'', Repository = []\<rparr>) = Inr subs
         \<and> set subs = {es \<in> set (subscriptions ex_db).
             sub_connector es = ''github'' \<and> sub_event es = ''repository_creation''
             \<and> (\<exists>gs \<in> set (c_github_subscriptions ex_db).
                   gs_id gs = sub_id es \<and> gs_organization gs = ''acme'')}"
    unfolding d by simp blast
  with e show ?thesis by blast
qed

section \<open>The SSH runner\<close>

lemma ssh_call_simps [simp]:
  "ssh_fault (ssh_call op W) = ssh_fault W"
  "files (ssh_call op W) = files W"
  "trace (ssh_call op W) = trace W @ [op]"
  by (simp_all add: ssh_call_def)

lemma setenv_all_ok:
  assumes "\<forall>(k, v) \<in> set kvs. ssh_fault W (Setenv k v) = None"
  shows "setenv_all kvs W = (None, W\<lparr>trace := trace W @ map (\<lambda>(k, v). Setenv k v) kvs\<rparr>)"
  using assms
proof (induction kvs arbitrary: W)
  case Nil
  then show ?case by simp
next
  case (Cons kv kvs)
  obtain k v where kv: "kv = (k, v)" by (cases kv)
  from Cons.prems have h: "ssh_fault W (Setenv k v) = None" by (simp add: kv)
  from Cons.prems have r: "\<forall>(k', v') \<in> set kvs. ssh_fault (ssh_call (Setenv k v) W) (Setenv k' v') = None"
    by (auto simp: kv)
  show ?case using Cons.IH [OF r] h by (simp add: kv ssh_call_def)
qed

lemma ExecuteStep_started:
  assumes c: "sshClient r \<noteq> None"
    and s: "ssh_fault W NewSession = None"
    and e: "\<forall>(k, v) \<in> set (Environment (runner r)). ssh_fault W (Setenv k v) = None"
    and st: "ssh_fault W (Start (StepCommandString (runner r) se step (rootPath r))) = None"
  shows "ExecuteStep r se step sel W =
     (let W3 = W\<lparr>trace := trace W @ NewSession # map (\<lambda>(k, v). Setenv k v) (Environment (runner r))
                    @ [Start (StepCommandString (runner r) se step (rootPath r))]\<rparr> in
      case sel of
        CaseErrChan waitErr \<Rightarrow>
          ((case waitErr of
                        None \<Rightarrow> None
                      | Some e \<Rightarrow>
                          (case errors_As_ExitError e of
                             Some (code, sigName) \<Rightarrow>
                               Some (StepFailureError (translateExitError code sigName))
                           | None \<Rightarrow> Some e)),
           W3\<lparr>trace := trace W3 @ [Wait, SessionClose]\<rparr>)
      | CaseCtxDone \<Rightarrow>
          (Some ContextCanceled,
           W3\<lparr>trace := trace W3 @ Signal ssh_SIGKILL #
               (case ssh_fault W (Signal ssh_SIGKILL) of None \<Rightarrow> [] | Some err \<Rightarrow> [LogError ''cannot kill program''])
               @ [SessionClose]\<rparr>))"
proof -
  from e have e': "\<forall>(k, v) \<in> set (Environment (runner r)). ssh_fault (ssh_call NewSession W) (Setenv k v) = None"
    by simp
  obtain client where cl: "sshClient r = Some client" using c by auto
  show ?thesis
    using s st
    apply (simp add: ExecuteStep_def cl setenv_all_ok [OF e'] Let_def)
    apply (simp add: ssh_call_def split: select_case.splits option.splits)
    done
qed




text \<open>
  Claim C9. Once the command is started, when the context is done before
  \<open>session.Wait()\<close> has delivered a result, \<open>ExecuteStep\<close> sends the signal
  \<open>KILL\<close> to the session right after the start of the command, closes the session
  and returns \<open>context.Canceled\<close>, which is neither nil nor a step failure; a failure
  to send the signal is only logged.
\<close>
theorem ExecuteStep_cancelled:
  assumes "sshClient r \<noteq> None"
    and "ssh_fault W NewSession = None"
    and "\<forall>(k, v) \<in> set (Environment (runner r)). ssh_fault W (Setenv k v) = None"
    and "ssh_fault W (Start (StepCommandString (runner r) se step (rootPath r))) = None"
  shows "fst (ExecuteStep r se step CaseCtxDone W) = Some ContextCanceled
       \<and> trace (snd (ExecuteStep r se step CaseCtxDone W)) =
           trace W @ NewSession # map (\<lambda>(k, v). Setenv k v) (Environment (runner r))
             @ [Start (StepCommandString (runner r) se step (rootPath r)), Signal ssh_SIGKILL]
             @ (case ssh_fault W (Signal ssh_SIGKILL) of
                  None \<Rightarrow> [] | Some err \<Rightarrow> [LogError ''cannot kill program''])
             @ [SessionClose]"
  by (simp add: ExecuteStep_started [OF assms] Let_def)

theorem ExecuteStep_cancelled_witness:
  "fst (ExecuteStep ex_runner 1 ''sleep 9'' CaseCtxDone ex_remote) = Some ContextCanceled
   \<and> trace (snd (ExecuteStep ex_runner 1 ''sleep 9'' CaseCtxDone ex_remote)) =
       [NewSession, Setenv ''A'' ''1'', Start ''sleep 9'', Signal ''KILL'', SessionClose]"
proof -
  have a: "sshClient ex_runner \<noteq> None" by (simp add: ex_ssh_defs)
  have b: "ssh_fault ex_remote NewSession = None" by (simp add: ex_ssh_defs)
  have c: "\<forall>(k, v) \<in> set (Environment (runner ex_runner)). ssh_fault ex_remote (Setenv k v) = None"
    by (simp add: ex_ssh_defs)
  have d: "ssh_fault ex_remote (Start (StepCommandString (runner ex_runner) 1 ''sleep 9'' (rootPath ex_runner))) = None"
    by (simp add: ex_ssh_defs)
  show ?thesis
    using ExecuteStep_cancelled [OF a b c d]
    by (simp add: ex_ssh_defs ssh_SIGKILL_def)
qed

section \<open>The SSH runner: termination\<close>

lemma Terminate_trace:
  "trace (Terminate r W) = trace W
     @ (case sftpClient r of
          None \<Rightarrow> []
        | Some sftp \<Rightarrow>
            DeleteDirectoryContent (RootDirectory (Cfg (runner r)))
            # (case ssh_fault W (DeleteDirectoryContent (RootDirectory (Cfg (runner r)))) of
                 None \<Rightarrow> []
               | Some err \<Rightarrow> [LogError (''cannot delete directory '' @ fmt_q (rootPath r))])
            @ [SftpClose])
     @ (case sshClient r of None \<Rightarrow> [] | Some client \<Rightarrow> [SshClose])"
  by (simp add: Terminate_def deleteDirectoryContent_def Let_def split: option.splits)

lemma Terminate_files:
  "files (Terminate r W) =
     (if sftpClient r \<noteq> None
         \<and> ssh_fault W (DeleteDirectoryContent (RootDirectory (Cfg (runner r)))) = None
      then filter (\<lambda>p. \<not> in_directory (RootDirectory (Cfg (runner r))) p) (files W)
      else files W)"
  by (simp add: Terminate_def deleteDirectoryContent_def Let_def split: option.splits)

lemma not_in_directory_self: "\<not> in_directory d d"
  by (simp add: in_directory_def)

lemma Init_runner:
  assumes "Init (NewRunner er jeId) fileSet W = (err, r, W1)"
  shows "runner r = er \<and> rootPath r = path_Join (RootDirectory (Cfg er)) jeId
         \<and> (sshClient r = None \<longrightarrow> sftpClient r = None)"
  using assms
  by (auto simp: Init_def NewRunner_def connect_def sftp_NewClient_def uploadFileSet_def Let_def
           split: option.splits sum.splits prod.splits if_splits)

text \<open>
  Claim C8. Whatever \<open>Init\<close> reached on a new runner, \<open>Terminate\<close> touches only the
  clients that exist: with no SSH client it does nothing at all, with an SSH client and
  no SFTP client it only closes the SSH client, and with both it deletes the content of
  the configured root directory, closes the SFTP client and closes the SSH client. The
  root directory itself stays, and every path that goes is in its content.
\<close>
theorem Terminate_after_Init:
  assumes "Init (NewRunner er jeId) fileSet W = (err, r, W1)"
  shows "(sshClient r = None \<longrightarrow> sftpClient r = None \<and> Terminate r W1 = W1)
       \<and> (sshClient r \<noteq> None \<and> sftpClient r = None \<longrightarrow>
            trace (Terminate r W1) = trace W1 @ [SshClose] \<and> files (Terminate r W1) = files W1)
       \<and> (sshClient r \<noteq> None \<and> sftpClient r \<noteq> None \<longrightarrow>
            trace (Terminate r W1) = trace W1
              @ DeleteDirectoryContent (RootDirectory (Cfg er))
              # (case ssh_fault W1 (DeleteDirectoryContent (RootDirectory (Cfg er))) of
                   None \<Rightarrow> []
                 | Some e \<Rightarrow> [LogError (''cannot delete directory '' @ fmt_q (rootPath r))])
              @ [SftpClose, SshClose])
       \<and> (RootDirectory (Cfg er) \<in> set (files W1) \<longrightarrow>
            RootDirectory (Cfg er) \<in> set (files (Terminate r W1)))
       \<and> (\<forall>p \<in> set (files W1). p \<notin> set (files (Terminate r W1)) \<longrightarrow>
            in_directory (RootDirectory (Cfg er)) p)"
proof -
  from Init_runner [OF assms] have rr: "runner r = er"
    and ps: "sshClient r = None \<longrightarrow> sftpClient r = None" by simp_all
  have a: "sshClient r = None \<longrightarrow> sftpClient r = None \<and> Terminate r W1 = W1"
    using ps by (auto simp: Terminate_def Let_def)
  have b: "sshClient r \<noteq> None \<and> sftpClient r = None \<longrightarrow>
            trace (Terminate r W1) = trace W1 @ [SshClose] \<and> files (Terminate r W1) = files W1"
    by (auto simp: Terminate_trace Terminate_files)
  have c: "sshClient r \<noteq> None \<and> sftpClient r \<noteq> None \<longrightarrow>
            trace (Terminate r W1) = trace W1
              @ DeleteDirectoryContent (RootDirectory (Cfg er))
              # (case ssh_fault W1 (DeleteDirectoryContent (RootDirectory (Cfg er))) of
                   None \<Rightarrow> []
                 | Some e \<Rightarrow> [LogError (''cannot delete directory '' @ fmt_q (rootPath r))])
              @ [SftpClose, SshClose]"
    by (auto simp: Terminate_trace rr split: option.splits)
  have d: "RootDirectory (Cfg er) \<in> set (files W1) \<longrightarrow>
            RootDirectory (Cfg er) \<in> set (files (Terminate r W1))"
    by (simp add: Terminate_files rr not_in_directory_self)
  have e: "\<forall>p \<in> set (files W1). p \<notin> set (files (Terminate r W1)) \<longrightarrow>
            in_directory (RootDirectory (Cfg er)) p"
    by (simp add: Terminate_files rr)
  from a b c d e show ?thesis by blast
qed

theorem Terminate_after_Init_witness:
  "Init (NewRunner ex_eventline_runner ''7'') [''run.sh''] ex_remote_no_sftp =
     (Some (ErrWrap ''cannot create sftp client'' (ErrMsg ''no subsystem'')),
      (NewRunner ex_eventline_runner ''7'')\<lparr>sshClient := Some SshClient\<rparr>,
      ex_remote_no_sftp\<lparr>trace := [Connect, SftpNewClient]\<rparr>)
   \<and> trace (Terminate ((NewRunner ex_eventline_runner ''7'')\<lparr>sshClient := Some SshClient\<rparr>)
              (ex_remote_no_sftp\<lparr>trace := [Connect, SftpNewClient]\<rparr>))
       = [Connect, SftpNewClient, SshClose]
   \<and> ''/tmp/x'' \<in> set (files (Terminate ((NewRunner ex_eventline_runner ''7'')\<lparr>sshClient := Some SshClient\<rparr>)
              (ex_remote_no_sftp\<lparr>trace := [Connect, SftpNewClient]\<rparr>)))"
proof -
  have i: "Init (NewRunner ex_eventline_runner ''7'') [''run.sh''] ex_remote_no_sftp =
     (Some (ErrWrap ''cannot create sftp client'' (ErrMsg ''no subsystem'')),
      (NewRunner ex_eventline_runner ''7'')\<lparr>sshClient := Some SshClient\<rparr>,
      ex_remote_no_sftp\<lparr>trace := [Connect, SftpNewClient]\<rparr>)"
    by (simp add: Init_def connect_def sftp_NewClient_def ex_remote_no_sftp_def ex_ssh_defs
        ssh_call_def)
  show ?thesis
    using Terminate_after_Init [OF i] i
    by (simp add: ex_remote_no_sftp_def ex_ssh_defs)
qed

section \<open>The job scheduler: one tick\<close>

lemma pg_call_simps [simp]:
  "pg_fault (pg_call op conn) = pg_fault conn"
  "pg_data (pg_call op conn) = pg_data conn"
  "pg_log (pg_call op conn) = pg_log conn @ [op]"
  by (simp_all add: pg_call_def)

lemma ProcessJob_tx_log:
  "\<exists>rest. pg_log (snd (snd (ProcessJob_tx S conn))) =
      pg_log conn @ TakeAdvisoryLock (PgAdvisoryLockId1 S) (PgAdvisoryLockId2JobScheduling S) # rest
    \<and> (LoadJobExecutionForScheduling \<in> set rest \<longrightarrow>
          pg_fault conn (TakeAdvisoryLock (PgAdvisoryLockId1 S) (PgAdvisoryLockId2JobScheduling S)) = None
          \<and> take 1 rest = [LoadJobExecutionForScheduling])"
  by (auto simp: ProcessJob_tx_def pg_TakeAdvisoryLock_def eventline_LoadJobExecutionForScheduling_def
        Service_StartJobExecution_def Let_def split: option.splits)

text \<open>
  Claim C5. Every call the tick makes to the store follows the opening of the
  transaction; the first is the advisory lock, and the query for the next execution is
  made only when the lock was taken, directly after it. When the lock is refused the
  tick makes no query: it rolls back and returns false with the error. When the store
  accepts the calls and no execution is schedulable, the tick is exactly: begin, lock,
  query, commit; the data is unchanged and the result is false with no error.
\<close>

theorem ProcessJob_nothing_to_schedule:
  "(\<exists>t. pg_log (snd (ProcessJob S pg0)) = pg_log pg0 @ t
        \<and> (t = [] \<or> take 2 t = [TxBegin, TakeAdvisoryLock (PgAdvisoryLockId1 S) (PgAdvisoryLockId2JobScheduling S)])
        \<and> (LoadJobExecutionForScheduling \<in> set t \<longrightarrow>
              pg_fault pg0 (TakeAdvisoryLock (PgAdvisoryLockId1 S) (PgAdvisoryLockId2JobScheduling S)) = None
              \<and> take 3 t = [TxBegin, TakeAdvisoryLock (PgAdvisoryLockId1 S) (PgAdvisoryLockId2JobScheduling S),
                            LoadJobExecutionForScheduling]))
   \<and> (\<forall>err. pg_fault pg0 TxBegin = None
        \<and> pg_fault pg0 (TakeAdvisoryLock (PgAdvisoryLockId1 S) (PgAdvisoryLockId2JobScheduling S)) = Some err
      \<longrightarrow> ProcessJob S pg0 =
            ((False, Some (ErrWrap ''cannot take advisory lock'' err)),
             pg0\<lparr>pg_log := pg_log pg0 @
                    [TxBegin, TakeAdvisoryLock (PgAdvisoryLockId1 S) (PgAdvisoryLockId2JobScheduling S),
                     TxRollback]\<rparr>))
   \<and> (pg_fault pg0 TxBegin = None
        \<and> pg_fault pg0 (TakeAdvisoryLock (PgAdvisoryLockId1 S) (PgAdvisoryLockId2JobScheduling S)) = None
        \<and> pg_fault pg0 LoadJobExecutionForScheduling = None
        \<and> pg_fault pg0 TxCommit = None
        \<and> select_for_scheduling S (pg_data pg0) = None
      \<longrightarrow> ProcessJob S pg0 =
            ((False, None),
             pg0\<lparr>pg_log := pg_log pg0 @
                    [TxBegin, TakeAdvisoryLock (PgAdvisoryLockId1 S) (PgAdvisoryLockId2JobScheduling S),
                     LoadJobExecutionForScheduling, TxCommit]\<rparr>))"
proof -
  obtain rest where r: "pg_log (snd (snd (ProcessJob_tx S (pg_call TxBegin pg0)))) =
      pg_log (pg_call TxBegin pg0) @ TakeAdvisoryLock (PgAdvisoryLockId1 S) (PgAdvisoryLockId2JobScheduling S) # rest"
    and l: "LoadJobExecutionForScheduling \<in> set rest \<longrightarrow>
              pg_fault pg0 (TakeAdvisoryLock (PgAdvisoryLockId1 S) (PgAdvisoryLockId2JobScheduling S)) = None
              \<and> take 1 rest = [LoadJobExecutionForScheduling]"
    using ProcessJob_tx_log [of S "pg_call TxBegin pg0"] by auto
  have a: "\<exists>t. pg_log (snd (ProcessJob S pg0)) = pg_log pg0 @ t
        \<and> (t = [] \<or> take 2 t = [TxBegin, TakeAdvisoryLock (PgAdvisoryLockId1 S) (PgAdvisoryLockId2JobScheduling S)])
        \<and> (LoadJobExecutionForScheduling \<in> set t \<longrightarrow>
              pg_fault pg0 (TakeAdvisoryLock (PgAdvisoryLockId1 S) (PgAdvisoryLockId2JobScheduling S)) = None
              \<and> take 3 t = [TxBegin, TakeAdvisoryLock (PgAdvisoryLockId1 S) (PgAdvisoryLockId2JobScheduling S),
                            LoadJobExecutionForScheduling])"
  proof (cases "pg_fault pg0 TxBegin")
    case (Some e)
    then show ?thesis by (simp add: ProcessJob_def WithTx_def)
  next
    case None
    obtain e v c where f: "ProcessJob_tx S (pg_call TxBegin pg0) = (e, v, c)"
      by (cases "ProcessJob_tx S (pg_call TxBegin pg0)") auto
    from r f have c: "pg_log c = pg_log pg0 @ TxBegin #
        TakeAdvisoryLock (PgAdvisoryLockId1 S) (PgAdvisoryLockId2JobScheduling S) # rest" by simp
    have "\<exists>fin. pg_log (snd (ProcessJob S pg0)) = pg_log c @ [fin] \<and> fin \<noteq> LoadJobExecutionForScheduling"
      using None f by (auto simp: ProcessJob_def WithTx_def split: option.splits)
    then obtain fin where g: "pg_log (snd (ProcessJob S pg0)) = pg_log c @ [fin]"
      and h: "fin \<noteq> LoadJobExecutionForScheduling" by blast
    let ?t = "TxBegin # TakeAdvisoryLock (PgAdvisoryLockId1 S) (PgAdvisoryLockId2JobScheduling S) # rest @ [fin]"
    have 1: "pg_log (snd (ProcessJob S pg0)) = pg_log pg0 @ ?t" using g c by simp
    have 2: "take 2 ?t = [TxBegin, TakeAdvisoryLock (PgAdvisoryLockId1 S) (PgAdvisoryLockId2JobScheduling S)]"
      by simp
    have 3: "LoadJobExecutionForScheduling \<in> set ?t \<longrightarrow>
              pg_fault pg0 (TakeAdvisoryLock (PgAdvisoryLockId1 S) (PgAdvisoryLockId2JobScheduling S)) = None
              \<and> take 3 ?t = [TxBegin, TakeAdvisoryLock (PgAdvisoryLockId1 S) (PgAdvisoryLockId2JobScheduling S),
                          LoadJobExecutionForScheduling]"
    proof
      assume "LoadJobExecutionForScheduling \<in> set ?t"
      with h have m: "LoadJobExecutionForScheduling \<in> set rest" by auto
      with l have k: "pg_fault pg0 (TakeAdvisoryLock (PgAdvisoryLockId1 S) (PgAdvisoryLockId2JobScheduling S)) = None"
        and "take 1 rest = [LoadJobExecutionForScheduling]" by simp_all
      then obtain rest' where "rest = LoadJobExecutionForScheduling # rest'"
        by (cases rest) auto
      with k show "pg_fault pg0 (TakeAdvisoryLock (PgAdvisoryLockId1 S) (PgAdvisoryLockId2JobScheduling S)) = None
              \<and> take 3 ?t = [TxBegin, TakeAdvisoryLock (PgAdvisoryLockId1 S) (PgAdvisoryLockId2JobScheduling S),
                          LoadJobExecutionForScheduling]" by simp
    qed
    from 1 2 3 show ?thesis by blast
  qed
  have b: "\<forall>err. pg_fault pg0 TxBegin = None
        \<and> pg_fault pg0 (TakeAdvisoryLock (PgAdvisoryLockId1 S) (PgAdvisoryLockId2JobScheduling S)) = Some err
      \<longrightarrow> ProcessJob S pg0 =
            ((False, Some (ErrWrap ''cannot take advisory lock'' err)),
             pg0\<lparr>pg_log := pg_log pg0 @
                    [TxBegin, TakeAdvisoryLock (PgAdvisoryLockId1 S) (PgAdvisoryLockId2JobScheduling S),
                     TxRollback]\<rparr>)"
    by (simp add: ProcessJob_def WithTx_def ProcessJob_tx_def pg_TakeAdvisoryLock_def
        Let_def pg_call_def)
  have c: "pg_fault pg0 TxBegin = None
        \<and> pg_fault pg0 (TakeAdvisoryLock (PgAdvisoryLockId1 S) (PgAdvisoryLockId2JobScheduling S)) = None
        \<and> pg_fault pg0 LoadJobExecutionForScheduling = None
        \<and> pg_fault pg0 TxCommit = None
        \<and> select_for_scheduling S (pg_data pg0) = None
      \<longrightarrow> ProcessJob S pg0 =
            ((False, None),
             pg0\<lparr>pg_log := pg_log pg0 @
                    [TxBegin, TakeAdvisoryLock (PgAdvisoryLockId1 S) (PgAdvisoryLockId2JobScheduling S),
                     LoadJobExecutionForScheduling, TxCommit]\<rparr>)"
    by (simp add: ProcessJob_def WithTx_def ProcessJob_tx_def pg_TakeAdvisoryLock_def
        eventline_LoadJobExecutionForScheduling_def Let_def pg_call_def)
  from a b c show ?thesis by blast
qed

theorem ProcessJob_nothing_to_schedule_witness:
  "ProcessJob ex_service (ex_conn ex_executions) =
     ((False, None),
      (ex_conn ex_executions)\<lparr>pg_log := [TxBegin, TakeAdvisoryLock 1 2, LoadJobExecutionForScheduling, TxCommit]\<rparr>)
   \<and> ProcessJob ex_service (ex_conn_lock_refused ex_executions) =
     ((False, Some (ErrWrap ''cannot take advisory lock'' (ErrMsg ''lock refused''))),
      (ex_conn_lock_refused ex_executions)\<lparr>pg_log := [TxBegin, TakeAdvisoryLock 1 2, TxRollback]\<rparr>)"
proof -
  have h: "pg_fault (ex_conn ex_executions) TxBegin = None
        \<and> pg_fault (ex_conn ex_executions) (TakeAdvisoryLock (PgAdvisoryLockId1 ex_service) (PgAdvisoryLockId2JobScheduling ex_service)) = None
        \<and> pg_fault (ex_conn ex_executions) LoadJobExecutionForScheduling = None
        \<and> pg_fault (ex_conn ex_executions) TxCommit = None
        \<and> select_for_scheduling ex_service (pg_data (ex_conn ex_executions)) = None"
    by (simp add: ex_conn_def ex_service_def ex_executions_def)
  from ProcessJob_nothing_to_schedule [of ex_service "ex_conn ex_executions"] h
  have "ProcessJob ex_service (ex_conn ex_executions) =
            ((False, None),
             (ex_conn ex_executions)\<lparr>pg_log := pg_log (ex_conn ex_executions) @
                    [TxBegin, TakeAdvisoryLock (PgAdvisoryLockId1 ex_service) (PgAdvisoryLockId2JobScheduling ex_service),
                     LoadJobExecutionForScheduling, TxCommit]\<rparr>)"
    by blast
  then have 1: "ProcessJob ex_service (ex_conn ex_executions) =
     ((False, None),
      (ex_conn ex_executions)\<lparr>pg_log := [TxBegin, TakeAdvisoryLock 1 2, LoadJobExecutionForScheduling, TxCommit]\<rparr>)"
    by (simp add: ex_conn_def ex_service_def)
  have k: "pg_fault (ex_conn_lock_refused ex_executions) TxBegin = None
        \<and> pg_fault (ex_conn_lock_refused ex_executions)
            (TakeAdvisoryLock (PgAdvisoryLockId1 ex_service) (PgAdvisoryLockId2JobScheduling ex_service))
          = Some (ErrMsg ''lock refused'')"
    by (simp add: ex_conn_lock_refused_def ex_service_def)
  from ProcessJob_nothing_to_schedule [of ex_service "ex_conn_lock_refused ex_executions"] k
  have "ProcessJob ex_service (ex_conn_lock_refused ex_executions) =
            ((False, Some (ErrWrap ''cannot take advisory lock'' (ErrMsg ''lock refused''))),
             (ex_conn_lock_refused ex_executions)\<lparr>pg_log := pg_log (ex_conn_lock_refused ex_executions) @
                    [TxBegin, TakeAdvisoryLock (PgAdvisoryLockId1 ex_service) (PgAdvisoryLockId2JobScheduling ex_service),
                     TxRollback]\<rparr>)"
    by blast
  then have 2: "ProcessJob ex_service (ex_conn_lock_refused ex_executions) =
     ((False, Some (ErrWrap ''cannot take advisory lock'' (ErrMsg ''lock refused''))),
      (ex_conn_lock_refused ex_executions)\<lparr>pg_log := [TxBegin, TakeAdvisoryLock 1 2, TxRollback]\<rparr>)"
    by (simp add: ex_conn_lock_refused_def ex_service_def)
  from 1 2 show ?thesis by blast
qed

section \<open>Webhook ingestion\<close>

lemma fromHexChar_all: "\<forall>n \<in> set [0 ..< 16]. fromHexChar (hextable ! n) = Some n"
  by code_simp

lemma fromHexChar_hextable: "n < 16 \<Longrightarrow> fromHexChar (hextable ! n) = Some n"
  using fromHexChar_all by simp

lemma of_char_lt_256: "(of_char c :: nat) < 256"
  by (metis of_char_mod_256 mod_less_divisor zero_less_numeral)

lemma hex_byte: "char_of ((of_char v :: nat) div 16 * 16 + of_char v mod 16) = v"
  by simp

lemma hex_DecodeString_Encode: "hex_DecodeString (hex_EncodeToString src) = Some src"
proof (induction src)
  case Nil
  then show ?case by (simp add: hex_EncodeToString_def)
next
  case (Cons v src)
  have d: "(of_char v :: nat) div 16 < 16"
    using of_char_lt_256 [of v] by (simp add: less_mult_imp_div_less)
  have m: "(of_char v :: nat) mod 16 < 16" by simp
  from Cons show ?case
    by (simp add: hex_EncodeToString_def fromHexChar_hextable [OF d] fromHexChar_hextable [OF m])
qed

lemma hex_EncodeToString_chars: "set (hex_EncodeToString src) \<subseteq> set hextable"
proof -
  have l: "length hextable = 16" by (simp add: hextable_def)
  have "\<And>v. hextable ! ((of_char v :: nat) div 16) \<in> set hextable"
    using of_char_lt_256 l by (intro nth_mem) (simp add: less_mult_imp_div_less)
  moreover have "\<And>v. hextable ! ((of_char v :: nat) mod 16) \<in> set hextable"
    using l by (intro nth_mem) simp
  ultimately show ?thesis by (auto simp: hex_EncodeToString_def)
qed

lemma hex_EncodeToString_length: "length (hex_EncodeToString src) = 2 * length src"
  by (induction src) (simp_all add: hex_EncodeToString_def)

lemma ValidatePayload_signed:
  assumes "Header_Get req ''X-Hub-Signature-256'' = sign_body E secretToken (req_body req)"
  shows "ValidatePayload E req secretToken = Inr (req_body req)"
  by (simp add: ValidatePayload_def assms sign_body_def hex_DecodeString_Encode)

lemma Load_eq:
  "LoadSubscriptionsByParams conn ename params =
     (case pg_fault conn (load_query ename params) of
        Some err \<Rightarrow> (Inl err, pg_call (load_query ename params) conn)
      | None \<Rightarrow> (Inr (matching_subscriptions (pg_data conn) ename params),
                 pg_call (load_query ename params) conn))"
  by (simp add: LoadSubscriptionsByParams_def pg_QueryObjects_def Let_def matching_subscriptions_def
        load_query_def select_subscriptions_def split: option.splits)

lemma insert_events_fault:
  "pg_fault (snd (insert_events E c ename t d subs conn)) = pg_fault conn"
  by (induction subs arbitrary: conn)
     (simp_all add: Insert_def Let_def split: option.splits)

lemma insert_events_ok:
  "fst (insert_events E c ename t d subs conn) = None \<Longrightarrow>
   pg_data (snd (insert_events E c ename t d subs conn)) =
     (pg_data conn)\<lparr>events := events (pg_data conn)
        @ map (\<lambda>sub. NewEvent E sub (Def_Name c) ename t d) subs\<rparr>"
  by (induction subs arbitrary: conn)
     (simp_all add: Insert_def Let_def split: option.splits)

lemma insert_events_no_fault:
  "\<forall>op. pg_fault conn op = None \<Longrightarrow> fst (insert_events E c ename t d subs conn) = None"
  by (induction subs arbitrary: conn)
     (simp_all add: Insert_def Let_def split: option.splits)

lemma CreateEvents_eq:
  "CreateEvents E c ename t d params pg0 =
     (case pg_fault pg0 TxBegin of
        Some err \<Rightarrow> (Some err, pg0)
      | None \<Rightarrow>
          (case pg_fault pg0 (load_query ename params) of
             Some err \<Rightarrow>
               (Some (ErrWrap ''cannot load subscriptions'' err),
                pg_call TxRollback (pg_call (load_query ename params) (pg_call TxBegin pg0)))
           | None \<Rightarrow>
               (case insert_events E c ename t d (matching_subscriptions (pg_data pg0) ename params)
                       (pg_call (load_query ename params) (pg_call TxBegin pg0)) of
                  (Some err, conn) \<Rightarrow>
                    (Some err, pg_call TxRollback (conn\<lparr>pg_data := pg_data pg0\<rparr>))
                | (None, conn) \<Rightarrow>
                    (case pg_fault pg0 TxCommit of
                       Some err \<Rightarrow> (Some err, pg_call TxRollback (conn\<lparr>pg_data := pg_data pg0\<rparr>))
                     | None \<Rightarrow> (None, pg_call TxCommit conn)))))"
proof -
  have f: "\<And>conn r. insert_events E c ename t d (matching_subscriptions (pg_data pg0) ename params)
             (pg_call (load_query ename params) (pg_call TxBegin pg0)) = (r, conn)
           \<Longrightarrow> pg_fault conn = pg_fault pg0"
    using insert_events_fault [of E c ename t d "matching_subscriptions (pg_data pg0) ename params"
            "pg_call (load_query ename params) (pg_call TxBegin pg0)"]
    by (simp add: pg_call_def)
  show ?thesis
    by (simp add: CreateEvents_def WithTx_def CreateEvents_tx_def Load_eq pg_call_def f
          split: option.splits prod.splits)
qed

lemma CreateEvents_fault:
  "pg_fault (snd (CreateEvents E c ename t d params pg0)) = pg_fault pg0"
proof -
  obtain r conn where i: "insert_events E c ename t d (matching_subscriptions (pg_data pg0) ename params)
             (pg_call (load_query ename params) (pg_call TxBegin pg0)) = (r, conn)"
    by (cases "insert_events E c ename t d (matching_subscriptions (pg_data pg0) ename params)
             (pg_call (load_query ename params) (pg_call TxBegin pg0))") auto
  have f: "pg_fault conn = pg_fault pg0"
    using insert_events_fault [of E c ename t d "matching_subscriptions (pg_data pg0) ename params"
            "pg_call (load_query ename params) (pg_call TxBegin pg0)"] i
    by simp
  show ?thesis
    by (simp add: CreateEvents_eq i f split: option.splits)
qed

lemma CreateEvents_failed:
  assumes "fst (CreateEvents E c ename t d params pg0) \<noteq> None"
  shows "pg_data (snd (CreateEvents E c ename t d params pg0)) = pg_data pg0"
proof -
  obtain r conn where i: "insert_events E c ename t d (matching_subscriptions (pg_data pg0) ename params)
             (pg_call (load_query ename params) (pg_call TxBegin pg0)) = (r, conn)"
    by (cases "insert_events E c ename t d (matching_subscriptions (pg_data pg0) ename params)
             (pg_call (load_query ename params) (pg_call TxBegin pg0))") auto
  show ?thesis
    using assms by (simp add: CreateEvents_eq i split: option.splits)
qed

lemma CreateEvents_succeeded:
  assumes "fst (CreateEvents E c ename t d params pg0) = None"
  shows "pg_data (snd (CreateEvents E c ename t d params pg0)) =
           (pg_data pg0)\<lparr>events := events (pg_data pg0)
              @ map (\<lambda>sub. NewEvent E sub (Def_Name c) ename t d)
                  (matching_subscriptions (pg_data pg0) ename params)\<rparr>"
proof -
  obtain r conn where i: "insert_events E c ename t d (matching_subscriptions (pg_data pg0) ename params)
             (pg_call (load_query ename params) (pg_call TxBegin pg0)) = (r, conn)"
    by (cases "insert_events E c ename t d (matching_subscriptions (pg_data pg0) ename params)
             (pg_call (load_query ename params) (pg_call TxBegin pg0))") auto
  have ok: "r = None \<Longrightarrow> pg_data conn =
           (pg_data pg0)\<lparr>events := events (pg_data pg0)
              @ map (\<lambda>sub. NewEvent E sub (Def_Name c) ename t d)
                  (matching_subscriptions (pg_data pg0) ename params)\<rparr>"
    using insert_events_ok [of E c ename t d "matching_subscriptions (pg_data pg0) ename params"
            "pg_call (load_query ename params) (pg_call TxBegin pg0)"] i
    by simp
  show ?thesis
    using assms ok by (simp add: CreateEvents_eq i split: option.splits)
qed

lemma CreateEvents_no_fault:
  assumes "\<forall>op. pg_fault pg0 op = None"
  shows "fst (CreateEvents E c ename t d params pg0) = None"
proof -
  obtain r conn where i: "insert_events E c ename t d (matching_subscriptions (pg_data pg0) ename params)
             (pg_call (load_query ename params) (pg_call TxBegin pg0)) = (r, conn)"
    by (cases "insert_events E c ename t d (matching_subscriptions (pg_data pg0) ename params)
             (pg_call (load_query ename params) (pg_call TxBegin pg0))") auto
  have "r = None"
    using insert_events_no_fault [of "pg_call (load_query ename params) (pg_call TxBegin pg0)"
            E c ename t d "matching_subscriptions (pg_data pg0) ename params"] i assms
    by simp
  then show ?thesis
    using assms by (simp add: CreateEvents_eq i)
qed

lemma CreateEvents_appends:
  "\<exists>evs. pg_data (snd (CreateEvents E c ename t d params pg0)) =
           (pg_data pg0)\<lparr>events := events (pg_data pg0) @ evs\<rparr>
         \<and> (\<forall>ev \<in> set evs. ev_name ev = ename)"
proof (cases "fst (CreateEvents E c ename t d params pg0)")
  case None
  from CreateEvents_succeeded [OF None] show ?thesis
    by (intro exI [of _ "map (\<lambda>sub. NewEvent E sub (Def_Name c) ename t d)
                  (matching_subscriptions (pg_data pg0) ename params)"])
       (simp add: NewEvent_def)
next
  case (Some e)
  then have "fst (CreateEvents E c ename t d params pg0) \<noteq> None" by simp
  from CreateEvents_failed [OF this] show ?thesis
    by (intro exI [of _ "[]"]) simp
qed

lemma appends_refl:
  "\<exists>evs. pg_data pg1 = (pg_data pg1)\<lparr>events := events (pg_data pg1) @ evs\<rparr>
         \<and> (\<forall>ev \<in> set evs. ev_name ev = ''repository_creation'' \<or> ev_name ev = ''repository_deletion'')"
  by (intro exI [of _ "[]"]) simp

lemma processWebhookEventRepositoryCreated_appends:
  "\<exists>evs. pg_data (snd (processWebhookEventRepositoryCreated E c e params pg1)) =
           (pg_data pg1)\<lparr>events := events (pg_data pg1) @ evs\<rparr>
         \<and> (\<forall>ev \<in> set evs. ev_name ev = ''repository_creation'' \<or> ev_name ev = ''repository_deletion'')"
proof -
  have s: "\<And>t d. snd (case CreateEvents E c ''repository_creation'' t d params pg1 of
                 (Some err, pg2) \<Rightarrow> (Some (ErrWrap ''cannot create event'' err), pg2)
               | (None, pg2) \<Rightarrow> (None, pg2))
           = snd (CreateEvents E c ''repository_creation'' t d params pg1)"
    by (simp split: prod.splits option.splits)
  have k: "\<And>t d. \<exists>evs. pg_data (snd (CreateEvents E c ''repository_creation'' t d params pg1)) =
           (pg_data pg1)\<lparr>events := events (pg_data pg1) @ evs\<rparr>
         \<and> (\<forall>ev \<in> set evs. ev_name ev = ''repository_creation'' \<or> ev_name ev = ''repository_deletion'')"
    using CreateEvents_appends [of E c "''repository_creation''" _ _ params pg1] by blast
  show ?thesis
    unfolding processWebhookEventRepositoryCreated_def Let_def
    by (simp add: s k appends_refl split: option.splits)
qed

lemma processWebhookEventRepositoryDeleted_appends:
  "\<exists>evs. pg_data (snd (processWebhookEventRepositoryDeleted E c e params pg1)) =
           (pg_data pg1)\<lparr>events := events (pg_data pg1) @ evs\<rparr>
         \<and> (\<forall>ev \<in> set evs. ev_name ev = ''repository_creation'' \<or> ev_name ev = ''repository_deletion'')"
proof -
  have s: "\<And>t d. snd (case CreateEvents E c ''repository_deletion'' t d params pg1 of
                 (Some err, pg2) \<Rightarrow> (Some (ErrWrap ''cannot create event'' err), pg2)
               | (None, pg2) \<Rightarrow> (None, pg2))
           = snd (CreateEvents E c ''repository_deletion'' t d params pg1)"
    by (simp split: prod.splits option.splits)
  have k: "\<And>t d. \<exists>evs. pg_data (snd (CreateEvents E c ''repository_deletion'' t d params pg1)) =
           (pg_data pg1)\<lparr>events := events (pg_data pg1) @ evs\<rparr>
         \<and> (\<forall>ev \<in> set evs. ev_name ev = ''repository_creation'' \<or> ev_name ev = ''repository_deletion'')"
    using CreateEvents_appends [of E c "''repository_deletion''" _ _ params pg1] by blast
  show ?thesis
    unfolding processWebhookEventRepositoryDeleted_def Let_def
    by (simp add: s k appends_refl split: option.splits)
qed

lemma dispatch_event_appends:
  "\<exists>evs. pg_data (snd (dispatch_event E c event params pg1)) =
           (pg_data pg1)\<lparr>events := events (pg_data pg1) @ evs\<rparr>
         \<and> (\<forall>ev \<in> set evs. ev_name ev = ''repository_creation'' \<or> ev_name ev = ''repository_deletion'')"
  unfolding dispatch_event_def processWebhookEventPush_def
  by (simp add: processWebhookEventRepositoryCreated_appends
        processWebhookEventRepositoryDeleted_appends appends_refl
        split: webhook_event.splits option.splits)

lemma processWebhookEventRepositoryCreated_invalid:
  assumes "fst (processWebhookEventRepositoryCreated E c e params pg1) = Some (InvalidWebhookEventError msg)"
  shows "snd (processWebhookEventRepositoryCreated E c e params pg1) = pg1"
  using assms unfolding processWebhookEventRepositoryCreated_def Let_def
  by (simp split: option.splits prod.splits)

lemma processWebhookEventRepositoryDeleted_invalid:
  assumes "fst (processWebhookEventRepositoryDeleted E c e params pg1) = Some (InvalidWebhookEventError msg)"
  shows "snd (processWebhookEventRepositoryDeleted E c e params pg1) = pg1"
  using assms unfolding processWebhookEventRepositoryDeleted_def Let_def
  by (simp split: option.splits prod.splits)

lemma dispatch_event_invalid:
  assumes "fst (dispatch_event E c event params pg1) = Some (InvalidWebhookEventError msg)"
  shows "snd (dispatch_event E c event params pg1) = pg1"
  using assms unfolding dispatch_event_def processWebhookEventPush_def
  by (simp add: processWebhookEventRepositoryCreated_invalid
        processWebhookEventRepositoryDeleted_invalid
        split: webhook_event.splits option.splits if_splits)

lemma Insert_log:
  "pg_log (snd (Insert ev conn)) = pg_log conn @ [InsertEvent ev]"
  by (simp add: Insert_def Let_def split: option.splits)

lemma insert_events_log:
  "\<exists>evs. pg_log (snd (insert_events E c ename t d subs conn)) = pg_log conn @ map InsertEvent evs"
proof (induction subs arbitrary: conn)
  case Nil
  show ?case by (intro exI [of _ "[]"]) simp
next
  case (Cons sub subs)
  let ?ev = "NewEvent E sub (Def_Name c) ename t d"
  obtain r conn1 where i: "Insert ?ev conn = (r, conn1)"
    by (cases "Insert ?ev conn") auto
  have l: "pg_log conn1 = pg_log conn @ [InsertEvent ?ev]"
    using Insert_log [of ?ev conn] i by simp
  show ?case
  proof (cases r)
    case None
    from Cons.IH [of conn1] obtain evs where
      "pg_log (snd (insert_events E c ename t d subs conn1)) = pg_log conn1 @ map InsertEvent evs"
      by blast
    then show ?thesis
      using i None l by (intro exI [of _ "?ev # evs"]) (simp add: Let_def)
  next
    case (Some e)
    then show ?thesis
      using i l by (intro exI [of _ "[?ev]"]) (simp add: Let_def)
  qed
qed

lemma CreateEvents_log:
  "\<exists>evs. pg_log (snd (CreateEvents E c ename t d params pg0)) = pg_log pg0 @
      (case pg_fault pg0 TxBegin of
         Some err \<Rightarrow> []
       | None \<Rightarrow> TxBegin # load_query ename params # map InsertEvent evs
           @ [if fst (CreateEvents E c ename t d params pg0) = None then TxCommit else TxRollback])"
proof -
  obtain r conn where i: "insert_events E c ename t d (matching_subscriptions (pg_data pg0) ename params)
             (pg_call (load_query ename params) (pg_call TxBegin pg0)) = (r, conn)"
    by (cases "insert_events E c ename t d (matching_subscriptions (pg_data pg0) ename params)
             (pg_call (load_query ename params) (pg_call TxBegin pg0))") auto
  from insert_events_log [of E c ename t d "matching_subscriptions (pg_data pg0) ename params"
         "pg_call (load_query ename params) (pg_call TxBegin pg0)"] i
  obtain evs where l: "pg_log conn = pg_log pg0 @ TxBegin # load_query ename params # map InsertEvent evs"
    by auto
  show ?thesis
  proof (cases "pg_fault pg0 (load_query ename params)")
    case (Some e)
    then show ?thesis
      by (intro exI [of _ "[]"]) (simp add: CreateEvents_eq split: option.splits)
  next
    case None
    then show ?thesis
      using l by (intro exI [of _ evs]) (simp add: CreateEvents_eq i split: option.splits)
  qed
qed

lemma matching_subscriptions_events [simp]:
  "matching_subscriptions (db\<lparr>events := evs\<rparr>) ename params = matching_subscriptions db ename params"
  by (simp add: matching_subscriptions_def select_subscriptions_def)

lemma ProcessWebhookRequest_valid:
  assumes "ValidatePayload E req (WebhookSecret E c params) = Inr payload"
    and "json_Unmarshal E payload = Inr rawMsg"
  shows "ProcessWebhookRequest E c req params pg0 =
     (case CreateEvents E c ''raw'' None (RawEvent (DeliveryID req) (WebHookType req) rawMsg) params pg0 of
        (Some err, pg1) \<Rightarrow> (Some (ErrWrap ''cannot create event'' err), pg1)
      | (None, pg1) \<Rightarrow>
          (case ParseWebHook E (WebHookType req) payload of
             Inl err \<Rightarrow> (Some (ErrWrap ''cannot parse webhook event'' err), pg1)
           | Inr event \<Rightarrow> dispatch_event E c event params pg1))"
  by (simp add: ProcessWebhookRequest_def Let_def assms)

lemma ProcessWebhookRequest_after_raw:
  assumes v: "ValidatePayload E req (WebhookSecret E c params) = Inr payload"
    and j: "json_Unmarshal E payload = Inr rawMsg"
    and r: "fst (CreateEvents E c ''raw'' None (RawEvent (DeliveryID req) (WebHookType req) rawMsg) params pg0) = None"
  shows "\<exists>typed. pg_data (snd (ProcessWebhookRequest E c req params pg0)) =
           (pg_data pg0)\<lparr>events := events (pg_data pg0)
              @ map (\<lambda>sub. NewEvent E sub (Def_Name c) ''raw'' None
                             (RawEvent (DeliveryID req) (WebHookType req) rawMsg))
                  (matching_subscriptions (pg_data pg0) ''raw'' params)
              @ typed\<rparr>
         \<and> (\<forall>ev \<in> set typed. ev_name ev = ''repository_creation'' \<or> ev_name ev = ''repository_deletion'')"
proof -
  let ?raw = "RawEvent (DeliveryID req) (WebHookType req) rawMsg"
  obtain pg1 where c1: "CreateEvents E c ''raw'' None ?raw params pg0 = (None, pg1)"
    using r by (cases "CreateEvents E c ''raw'' None ?raw params pg0") auto
  have d1: "pg_data pg1 = (pg_data pg0)\<lparr>events := events (pg_data pg0)
              @ map (\<lambda>sub. NewEvent E sub (Def_Name c) ''raw'' None ?raw)
                  (matching_subscriptions (pg_data pg0) ''raw'' params)\<rparr>"
    using CreateEvents_succeeded [OF r] c1 by simp
  show ?thesis
  proof (cases "ParseWebHook E (WebHookType req) payload")
    case (Inl e)
    show ?thesis
      by (intro exI [of _ "[]"])
         (simp add: ProcessWebhookRequest_valid [OF v j] c1 Inl d1)
  next
    case (Inr event)
    from dispatch_event_appends [of E c event params pg1] obtain evs where
      e: "pg_data (snd (dispatch_event E c event params pg1)) =
           (pg_data pg1)\<lparr>events := events (pg_data pg1) @ evs\<rparr>"
      and n: "\<forall>ev \<in> set evs. ev_name ev = ''repository_creation'' \<or> ev_name ev = ''repository_deletion''"
      by blast
    show ?thesis
      using n by (intro exI [of _ evs])
         (simp add: ProcessWebhookRequest_valid [OF v j] c1 Inr e d1)
  qed
qed

text \<open>
  Claim C2, as the code has it. For a request whose signature verifies and whose body
  decodes, and a store that accepts every call, the events \<open>ProcessWebhookRequest\<close>
  adds are: first one event named \<open>raw\<close> for each subscription the matcher returns for
  the event name \<open>raw\<close> (none when it returns none), each carrying the delivery id, the
  event type and the decoded payload, and after them the typed events, if any.
\<close>
theorem ProcessWebhookRequest_raw_events:
  assumes "ValidatePayload E req (WebhookSecret E c params) = Inr payload"
    and "json_Unmarshal E payload = Inr rawMsg"
    and "\<forall>op. pg_fault pg0 op = None"
  shows "\<exists>typed. events (pg_data (snd (ProcessWebhookRequest E c req params pg0))) =
           events (pg_data pg0)
           @ map (\<lambda>sub. NewEvent E sub (Def_Name c) ''raw'' None
                          (RawEvent (DeliveryID req) (WebHookType req) rawMsg))
               (matching_subscriptions (pg_data pg0) ''raw'' params)
           @ typed
         \<and> (\<forall>ev \<in> set typed. ev_name ev = ''repository_creation'' \<or> ev_name ev = ''repository_deletion'')"
proof -
  have r: "fst (CreateEvents E c ''raw'' None (RawEvent (DeliveryID req) (WebHookType req) rawMsg) params pg0) = None"
    by (rule CreateEvents_no_fault [OF assms(3)])
  from ProcessWebhookRequest_after_raw [OF assms(1) assms(2) r]
  obtain typed where
    d: "pg_data (snd (ProcessWebhookRequest E c req params pg0)) =
           (pg_data pg0)\<lparr>events := events (pg_data pg0)
              @ map (\<lambda>sub. NewEvent E sub (Def_Name c) ''raw'' None
                             (RawEvent (DeliveryID req) (WebHookType req) rawMsg))
                  (matching_subscriptions (pg_data pg0) ''raw'' params)
              @ typed\<rparr>"
    and n: "\<forall>ev \<in> set typed. ev_name ev = ''repository_creation'' \<or> ev_name ev = ''repository_deletion''"
    by blast
  show ?thesis using n by (intro exI [of _ typed]) (simp add: d)
qed

text \<open>
  Claim C3, as the code has it. Each call of \<open>CreateEvents\<close> is one transaction of its
  own and is all or nothing: when it fails the data is what it was, when it succeeds
  the events of all matched subscriptions are added, and its calls to the store are one
  begin, the query, the inserts and one commit or rollback. \<open>ProcessWebhookRequest\<close>
  commits the raw events before it goes on: whatever happens afterwards, the events the
  first call added stay.
\<close>
theorem CreateEvents_own_transaction:
  "(fst (CreateEvents E c ename t d params pg0) \<noteq> None \<longrightarrow>
       pg_data (snd (CreateEvents E c ename t d params pg0)) = pg_data pg0)
   \<and> (fst (CreateEvents E c ename t d params pg0) = None \<longrightarrow>
       pg_data (snd (CreateEvents E c ename t d params pg0)) =
         (pg_data pg0)\<lparr>events := events (pg_data pg0)
            @ map (\<lambda>sub. NewEvent E sub (Def_Name c) ename t d)
                (matching_subscriptions (pg_data pg0) ename params)\<rparr>)
   \<and> (\<exists>evs. pg_log (snd (CreateEvents E c ename t d params pg0)) = pg_log pg0 @
         (case pg_fault pg0 TxBegin of
            Some err \<Rightarrow> []
          | None \<Rightarrow> TxBegin # load_query ename params # map InsertEvent evs
              @ [if fst (CreateEvents E c ename t d params pg0) = None then TxCommit else TxRollback]))
   \<and> (ValidatePayload E req (WebhookSecret E c params) = Inr payload
        \<and> json_Unmarshal E payload = Inr rawMsg
        \<and> fst (CreateEvents E c ''raw'' None (RawEvent (DeliveryID req) (WebHookType req) rawMsg) params pg0) = None
      \<longrightarrow> prefix (events (pg_data (snd (CreateEvents E c ''raw'' None
                      (RawEvent (DeliveryID req) (WebHookType req) rawMsg) params pg0))))
                 (events (pg_data (snd (ProcessWebhookRequest E c req params pg0)))))"
proof -
  have a: "fst (CreateEvents E c ename t d params pg0) \<noteq> None \<longrightarrow>
       pg_data (snd (CreateEvents E c ename t d params pg0)) = pg_data pg0"
    using CreateEvents_failed by blast
  have b: "fst (CreateEvents E c ename t d params pg0) = None \<longrightarrow>
       pg_data (snd (CreateEvents E c ename t d params pg0)) =
         (pg_data pg0)\<lparr>events := events (pg_data pg0)
            @ map (\<lambda>sub. NewEvent E sub (Def_Name c) ename t d)
                (matching_subscriptions (pg_data pg0) ename params)\<rparr>"
    using CreateEvents_succeeded by blast
  have p: "ValidatePayload E req (WebhookSecret E c params) = Inr payload
        \<and> json_Unmarshal E payload = Inr rawMsg
        \<and> fst (CreateEvents E c ''raw'' None (RawEvent (DeliveryID req) (WebHookType req) rawMsg) params pg0) = None
      \<longrightarrow> prefix (events (pg_data (snd (CreateEvents E c ''raw'' None
                      (RawEvent (DeliveryID req) (WebHookType req) rawMsg) params pg0))))
                 (events (pg_data (snd (ProcessWebhookRequest E c req params pg0))))"
  proof
    assume h: "ValidatePayload E req (WebhookSecret E c params) = Inr payload
        \<and> json_Unmarshal E payload = Inr rawMsg
        \<and> fst (CreateEvents E c ''raw'' None (RawEvent (DeliveryID req) (WebHookType req) rawMsg) params pg0) = None"
    then have v: "ValidatePayload E req (WebhookSecret E c params) = Inr payload"
      and j: "json_Unmarshal E payload = Inr rawMsg"
      and r: "fst (CreateEvents E c ''raw'' None (RawEvent (DeliveryID req) (WebHookType req) rawMsg) params pg0) = None"
      by simp_all
    from ProcessWebhookRequest_after_raw [OF v j r] obtain typed where
      d: "pg_data (snd (ProcessWebhookRequest E c req params pg0)) =
           (pg_data pg0)\<lparr>events := events (pg_data pg0)
              @ map (\<lambda>sub. NewEvent E sub (Def_Name c) ''raw'' None
                             (RawEvent (DeliveryID req) (WebHookType req) rawMsg))
                  (matching_subscriptions (pg_data pg0) ''raw'' params)
              @ typed\<rparr>"
      by blast
    show "prefix (events (pg_data (snd (CreateEvents E c ''raw'' None
                      (RawEvent (DeliveryID req) (WebHookType req) rawMsg) params pg0))))
                 (events (pg_data (snd (ProcessWebhookRequest E c req params pg0))))"
      by (simp add: d CreateEvents_succeeded [OF r])
  qed
  from a b CreateEvents_log [of E c ename t d params pg0] p show ?thesis by blast
qed

text \<open>
  Claim C4, as the code has it. When the signature does not verify,
  \<open>ProcessWebhookRequest\<close> returns before it touches the store: no event is created.
  When it returns an \<open>InvalidWebhookEventError\<close> (a payload of bad shape), no typed
  event has been created, and the events it added are exactly the raw events, one for
  each subscription matched for the event name \<open>raw\<close>.
\<close>
theorem ProcessWebhookRequest_invalid:
  "(\<forall>err. ValidatePayload E req (WebhookSecret E c params) = Inl err \<longrightarrow>
       ProcessWebhookRequest E c req params pg0 = (Some (ErrWrap ''invalid signature'' err), pg0))
   \<and> (\<forall>msg. fst (ProcessWebhookRequest E c req params pg0) = Some (InvalidWebhookEventError msg) \<longrightarrow>
       (\<exists>rawMsg. pg_data (snd (ProcessWebhookRequest E c req params pg0)) =
          (pg_data pg0)\<lparr>events := events (pg_data pg0)
             @ map (\<lambda>sub. NewEvent E sub (Def_Name c) ''raw'' None
                            (RawEvent (DeliveryID req) (WebHookType req) rawMsg))
                 (matching_subscriptions (pg_data pg0) ''raw'' params)\<rparr>))"
proof -
  have a: "\<forall>err. ValidatePayload E req (WebhookSecret E c params) = Inl err \<longrightarrow>
       ProcessWebhookRequest E c req params pg0 = (Some (ErrWrap ''invalid signature'' err), pg0)"
    by (simp add: ProcessWebhookRequest_def Let_def)
  have b: "\<forall>msg. fst (ProcessWebhookRequest E c req params pg0) = Some (InvalidWebhookEventError msg) \<longrightarrow>
       (\<exists>rawMsg. pg_data (snd (ProcessWebhookRequest E c req params pg0)) =
          (pg_data pg0)\<lparr>events := events (pg_data pg0)
             @ map (\<lambda>sub. NewEvent E sub (Def_Name c) ''raw'' None
                            (RawEvent (DeliveryID req) (WebHookType req) rawMsg))
                 (matching_subscriptions (pg_data pg0) ''raw'' params)\<rparr>)"
  proof (intro allI impI)
    fix msg
    assume f: "fst (ProcessWebhookRequest E c req params pg0) = Some (InvalidWebhookEventError msg)"
    obtain payload where v: "ValidatePayload E req (WebhookSecret E c params) = Inr payload"
      using f by (cases "ValidatePayload E req (WebhookSecret E c params)")
                 (auto simp: ProcessWebhookRequest_def Let_def)
    obtain rawMsg where j: "json_Unmarshal E payload = Inr rawMsg"
      using f v by (cases "json_Unmarshal E payload")
                   (auto simp: ProcessWebhookRequest_def Let_def)
    let ?raw = "RawEvent (DeliveryID req) (WebHookType req) rawMsg"
    obtain r1 pg1 where c1: "CreateEvents E c ''raw'' None ?raw params pg0 = (r1, pg1)"
      by (cases "CreateEvents E c ''raw'' None ?raw params pg0") auto
    have r1: "r1 = None"
      using f by (cases r1) (simp_all add: ProcessWebhookRequest_valid [OF v j] c1)
    obtain event where p: "ParseWebHook E (WebHookType req) payload = Inr event"
      using f r1 by (cases "ParseWebHook E (WebHookType req) payload")
                    (simp_all add: ProcessWebhookRequest_valid [OF v j] c1)
    have e: "ProcessWebhookRequest E c req params pg0 = dispatch_event E c event params pg1"
      by (simp add: ProcessWebhookRequest_valid [OF v j] c1 r1 p)
    have "snd (dispatch_event E c event params pg1) = pg1"
      using f e dispatch_event_invalid by simp
    then have s: "snd (ProcessWebhookRequest E c req params pg0) = pg1" using e by simp
    have "fst (CreateEvents E c ''raw'' None ?raw params pg0) = None" using c1 r1 by simp
    from CreateEvents_succeeded [OF this] c1 s
    show "\<exists>rawMsg. pg_data (snd (ProcessWebhookRequest E c req params pg0)) =
          (pg_data pg0)\<lparr>events := events (pg_data pg0)
             @ map (\<lambda>sub. NewEvent E sub (Def_Name c) ''raw'' None
                            (RawEvent (DeliveryID req) (WebHookType req) rawMsg))
                 (matching_subscriptions (pg_data pg0) ''raw'' params)\<rparr>"
      by (intro exI [of _ rawMsg]) simp
  qed
  from a b show ?thesis by blast
qed

lemma ex_req_valid:
  "ValidatePayload ex_env (ex_req messageType) (WebhookSecret ex_env ex_connector ex_params) = Inr ''{}''"
proof -
  have "Header_Get (ex_req messageType) ''X-Hub-Signature-256'' =
          sign_body ex_env (WebhookSecret ex_env ex_connector ex_params) (req_body (ex_req messageType))"
    by (simp add: Header_Get_def ex_req_def)
  from ValidatePayload_signed [OF this] show ?thesis by (simp add: ex_req_def)
qed

lemma ex_json: "json_Unmarshal ex_env ''{}'' = Inr (JObject [])"
  by (simp add: ex_env_def)

lemma ex_req_headers:
  "DeliveryID (ex_req messageType) = ''d1''" "WebHookType (ex_req messageType) = messageType"
  by (simp_all add: DeliveryID_def WebHookType_def Header_Get_def ex_req_def)

lemma ex_matching:
  "matching_subscriptions ex_db ''raw'' ex_params = [ex_sub 1 ''raw'' Active]"
  "matching_subscriptions ex_db ''repository_creation'' ex_params =
     [ex_sub 2 ''repository_creation'' Inactive, ex_sub 3 ''repository_creation'' Active]"
  "matching_subscriptions ex_db_no_raw ''raw'' ex_params = []"
  "matching_subscriptions ex_db_no_raw ''repository_creation'' ex_params =
     [ex_sub 3 ''repository_creation'' Active]"
  by (simp_all add: matching_subscriptions_def select_subscriptions_def where_clause_def
        ex_db_no_raw_def ex_defs ex_params_def)

lemmas ex_eval =
  CreateEvents_eq load_query_def Insert_def dispatch_event_def
  processWebhookEventRepositoryCreated_def Let_def ex_req_headers ex_matching

text \<open>
  Claim C2 as stated fails: with no subscription to the event name \<open>raw\<close>, a request
  with a valid signature and a valid JSON body succeeds, creates a typed event and
  creates no raw event.
\<close>

theorem ProcessWebhookRequest_no_raw_counterexample:
  "ValidatePayload ex_env (ex_req ''repository'') (WebhookSecret ex_env ex_connector ex_params) = Inr ''{}''
   \<and> json_Unmarshal ex_env ''{}'' = Inr (JObject [])
   \<and> fst (ProcessWebhookRequest ex_env ex_connector (ex_req ''repository'') ex_params
            (ex_conn ex_db_no_raw)) = None
   \<and> map ev_name (events (pg_data (snd (ProcessWebhookRequest ex_env ex_connector
            (ex_req ''repository'') ex_params (ex_conn ex_db_no_raw))))) = [''repository_creation'']"
proof -
  have p: "ParseWebHook ex_env ''repository'' ''{}'' =
             Inr (RepositoryEvent \<lparr>Action = Some ''created'',
                Org = Some \<lparr>Login = Some ''acme''\<rparr>,
                Repo = Some \<lparr>Name = Some ''other'', CreatedAt = Some 5, UpdatedAt = None\<rparr>\<rparr>)"
    by (simp add: ex_env_def)
  have d: "pg_data (ex_conn ex_db_no_raw) = ex_db_no_raw" "pg_fault (ex_conn ex_db_no_raw) = (\<lambda>op. None)"
    "events ex_db_no_raw = []"
    by (simp_all add: ex_conn_def ex_db_no_raw_def ex_db_def)
  show ?thesis
    by (simp add: ex_req_valid ex_json ProcessWebhookRequest_valid [OF ex_req_valid ex_json]
          ex_eval p d NewEvent_def)
qed

theorem ProcessWebhookRequest_raw_events_witness:
  "\<exists>typed. events (pg_data (snd (ProcessWebhookRequest ex_env ex_connector (ex_req ''repository'')
                ex_params (ex_conn ex_db)))) =
      NewEvent ex_env (ex_sub 1 ''raw'' Active) ''github'' ''raw'' None
        (RawEvent ''d1'' ''repository'' (JObject [])) # typed
    \<and> (\<forall>ev \<in> set typed. ev_name ev = ''repository_creation'' \<or> ev_name ev = ''repository_deletion'')"
proof -
  have nf: "\<forall>op. pg_fault (ex_conn ex_db) op = None" by (simp add: ex_conn_def)
  have d: "pg_data (ex_conn ex_db) = ex_db" "events ex_db = []" "Def_Name ex_connector = ''github''"
    by (simp_all add: ex_conn_def ex_db_def ex_connector_def)
  from ProcessWebhookRequest_raw_events [OF ex_req_valid ex_json nf]
  show ?thesis by (simp add: d ex_matching ex_req_headers)
qed

text \<open>
  Claim C3 as stated fails: a request that succeeds inserts its raw event in one
  transaction, committed, and its typed events in a second one; and when the store
  refuses a typed event, the request fails while its raw event stays.
\<close>

theorem ProcessWebhookRequest_two_transactions_counterexample:
  "fst (ProcessWebhookRequest ex_env ex_connector (ex_req ''repository'') ex_params (ex_conn ex_db)) = None
   \<and> pg_log (snd (ProcessWebhookRequest ex_env ex_connector (ex_req ''repository'') ex_params
                   (ex_conn ex_db))) =
       [TxBegin, QueryObjects CondTRUE [''raw'', ''acme''],
        InsertEvent (NewEvent ex_env (ex_sub 1 ''raw'' Active) ''github'' ''raw'' None
                       (RawEvent ''d1'' ''repository'' (JObject []))),
        TxCommit,
        TxBegin, QueryObjects CondTRUE [''repository_creation'', ''acme''],
        InsertEvent (NewEvent ex_env (ex_sub 2 ''repository_creation'' Inactive) ''github''
                       ''repository_creation'' (Some 5) (RepositoryCreationEvent ''acme'' ''other'')),
        InsertEvent (NewEvent ex_env (ex_sub 3 ''repository_creation'' Active) ''github''
                       ''repository_creation'' (Some 5) (RepositoryCreationEvent ''acme'' ''other'')),
        TxCommit]
   \<and> fst (ProcessWebhookRequest ex_env ex_connector (ex_req ''repository'') ex_params
            (ex_conn_refusing ex_db)) =
       Some (ErrWrap ''cannot create event'' (ErrWrap ''cannot insert event'' (ErrMsg ''refused'')))
   \<and> map ev_name (events (pg_data (snd (ProcessWebhookRequest ex_env ex_connector
            (ex_req ''repository'') ex_params (ex_conn_refusing ex_db))))) = [''raw'']"
proof -
  have p: "ParseWebHook ex_env ''repository'' ''{}'' =
             Inr (RepositoryEvent \<lparr>Action = Some ''created'',
                Org = Some \<lparr>Login = Some ''acme''\<rparr>,
                Repo = Some \<lparr>Name = Some ''other'', CreatedAt = Some 5, UpdatedAt = None\<rparr>\<rparr>)"
    by (simp add: ex_env_def)
  have d: "pg_data (ex_conn ex_db) = ex_db" "pg_fault (ex_conn ex_db) = (\<lambda>op. None)"
    "pg_log (ex_conn ex_db) = []"
    "events ex_db = []" "Def_Name ex_connector = ''github''" "Repository ex_params = []"
    "Organization ex_params = ''acme''"
    by (simp_all add: ex_conn_def ex_db_def ex_connector_def ex_params_def)
  have a: "fst (ProcessWebhookRequest ex_env ex_connector (ex_req ''repository'') ex_params (ex_conn ex_db)) = None"
    by (simp add: ProcessWebhookRequest_valid [OF ex_req_valid ex_json] ex_eval p d)
  have b: "pg_log (snd (ProcessWebhookRequest ex_env ex_connector (ex_req ''repository'') ex_params
                   (ex_conn ex_db))) =
       [TxBegin, QueryObjects CondTRUE [''raw'', ''acme''],
        InsertEvent (NewEvent ex_env (ex_sub 1 ''raw'' Active) ''github'' ''raw'' None
                       (RawEvent ''d1'' ''repository'' (JObject []))),
        TxCommit,
        TxBegin, QueryObjects CondTRUE [''repository_creation'', ''acme''],
        InsertEvent (NewEvent ex_env (ex_sub 2 ''repository_creation'' Inactive) ''github''
                       ''repository_creation'' (Some 5) (RepositoryCreationEvent ''acme'' ''other'')),
        InsertEvent (NewEvent ex_env (ex_sub 3 ''repository_creation'' Active) ''github''
                       ''repository_creation'' (Some 5) (RepositoryCreationEvent ''acme'' ''other'')),
        TxCommit]"
    by (simp add: ProcessWebhookRequest_valid [OF ex_req_valid ex_json] ex_eval p d)
  have d': "pg_data (ex_conn_refusing ex_db) = ex_db"
    "pg_log (ex_conn_refusing ex_db) = []"
    "\<And>ev. pg_fault (ex_conn_refusing ex_db) (InsertEvent ev) =
        (if ev_name ev = ''repository_creation'' then Some (ErrMsg ''refused'') else None)"
    "pg_fault (ex_conn_refusing ex_db) TxBegin = None"
    "pg_fault (ex_conn_refusing ex_db) TxCommit = None"
    "\<And>cond args. pg_fault (ex_conn_refusing ex_db) (QueryObjects cond args) = None"
    by (simp_all add: ex_conn_refusing_def)
  have c: "fst (ProcessWebhookRequest ex_env ex_connector (ex_req ''repository'') ex_params
            (ex_conn_refusing ex_db)) =
       Some (ErrWrap ''cannot create event'' (ErrWrap ''cannot insert event'' (ErrMsg ''refused'')))"
    by (simp add: ProcessWebhookRequest_valid [OF ex_req_valid ex_json] ex_eval p d d' NewEvent_def)
  have e: "map ev_name (events (pg_data (snd (ProcessWebhookRequest ex_env ex_connector
            (ex_req ''repository'') ex_params (ex_conn_refusing ex_db))))) = [''raw'']"
    by (simp add: ProcessWebhookRequest_valid [OF ex_req_valid ex_json] ex_eval p d d' NewEvent_def)
  from a b c e show ?thesis by blast
qed

theorem CreateEvents_own_transaction_witness:
  "fst (CreateEvents ex_env ex_connector ''raw'' None (RawEvent ''d1'' ''repository'' (JObject []))
          ex_params (ex_conn ex_db)) = None
   \<and> pg_data (snd (CreateEvents ex_env ex_connector ''raw'' None
          (RawEvent ''d1'' ''repository'' (JObject [])) ex_params (ex_conn ex_db))) =
       ex_db\<lparr>events := [NewEvent ex_env (ex_sub 1 ''raw'' Active) ''github'' ''raw'' None
                          (RawEvent ''d1'' ''repository'' (JObject []))]\<rparr>
   \<and> fst (CreateEvents ex_env ex_connector ''repository_creation'' None
          (RepositoryCreationEvent ''acme'' ''other'') ex_params (ex_conn_refusing ex_db)) \<noteq> None
   \<and> pg_data (snd (CreateEvents ex_env ex_connector ''repository_creation'' None
          (RepositoryCreationEvent ''acme'' ''other'') ex_params (ex_conn_refusing ex_db))) = ex_db"
proof -
  have d: "pg_data (ex_conn ex_db) = ex_db" "pg_fault (ex_conn ex_db) = (\<lambda>op. None)"
    "events ex_db = []" "Def_Name ex_connector = ''github''"
    by (simp_all add: ex_conn_def ex_db_def ex_connector_def)
  have d': "pg_data (ex_conn_refusing ex_db) = ex_db"
    "\<And>ev. pg_fault (ex_conn_refusing ex_db) (InsertEvent ev) =
        (if ev_name ev = ''repository_creation'' then Some (ErrMsg ''refused'') else None)"
    "pg_fault (ex_conn_refusing ex_db) TxBegin = None"
    "pg_fault (ex_conn_refusing ex_db) TxCommit = None"
    "\<And>cond args. pg_fault (ex_conn_refusing ex_db) (QueryObjects cond args) = None"
    by (simp_all add: ex_conn_refusing_def)
  have a: "fst (CreateEvents ex_env ex_connector ''raw'' None (RawEvent ''d1'' ''repository'' (JObject []))
          ex_params (ex_conn ex_db)) = None"
    by (simp add: ex_eval d)
  have b: "fst (CreateEvents ex_env ex_connector ''repository_creation'' None
          (RepositoryCreationEvent ''acme'' ''other'') ex_params (ex_conn_refusing ex_db)) \<noteq> None"
    by (simp add: ex_eval d d' NewEvent_def)
  from CreateEvents_own_transaction [of ex_env ex_connector "''raw''" None
         "RawEvent ''d1'' ''repository'' (JObject [])" ex_params "ex_conn ex_db"] a
  have 1: "pg_data (snd (CreateEvents ex_env ex_connector ''raw'' None
          (RawEvent ''d1'' ''repository'' (JObject [])) ex_params (ex_conn ex_db))) =
       ex_db\<lparr>events := [NewEvent ex_env (ex_sub 1 ''raw'' Active) ''github'' ''raw'' None
                          (RawEvent ''d1'' ''repository'' (JObject []))]\<rparr>"
    by (simp add: d ex_matching)
  from CreateEvents_own_transaction [of ex_env ex_connector "''repository_creation''" None
         "RepositoryCreationEvent ''acme'' ''other''" ex_params "ex_conn_refusing ex_db"] b
  have 2: "pg_data (snd (CreateEvents ex_env ex_connector ''repository_creation'' None
          (RepositoryCreationEvent ''acme'' ''other'') ex_params (ex_conn_refusing ex_db))) = ex_db"
    by (simp add: d')
  from a 1 b 2 show ?thesis by blast
qed

text \<open>
  Claim C4 as stated fails: a repository event with no action makes the request fail
  with "missing action" after the raw event has been created and committed.
\<close>

theorem ProcessWebhookRequest_bad_shape_counterexample:
  "fst (ProcessWebhookRequest ex_env ex_connector (ex_req ''repository-no-action'') ex_params
          (ex_conn ex_db)) = Some (InvalidWebhookEventError ''missing action'')
   \<and> events (pg_data (ex_conn ex_db)) = []
   \<and> events (pg_data (snd (ProcessWebhookRequest ex_env ex_connector (ex_req ''repository-no-action'')
          ex_params (ex_conn ex_db)))) =
       [NewEvent ex_env (ex_sub 1 ''raw'' Active) ''github'' ''raw'' None
          (RawEvent ''d1'' ''repository-no-action'' (JObject []))]"
proof -
  have p: "ParseWebHook ex_env ''repository-no-action'' ''{}'' =
             Inr (RepositoryEvent \<lparr>Action = None, Org = None, Repo = None\<rparr>)"
    by (simp add: ex_env_def)
  have d: "pg_data (ex_conn ex_db) = ex_db" "pg_fault (ex_conn ex_db) = (\<lambda>op. None)"
    "pg_log (ex_conn ex_db) = []"
    "events ex_db = []" "Def_Name ex_connector = ''github''"
    by (simp_all add: ex_conn_def ex_db_def ex_connector_def)
  show ?thesis
    by (simp add: ProcessWebhookRequest_valid [OF ex_req_valid ex_json] ex_eval p d)
qed

theorem ProcessWebhookRequest_invalid_witness:
  "ProcessWebhookRequest ex_env ex_connector ex_req_bad ex_params (ex_conn ex_db) =
     (Some (ErrWrap ''invalid signature'' (ErrMsg ''payload signature check failed'')), ex_conn ex_db)
   \<and> fst (ProcessWebhookRequest ex_env ex_connector (ex_req ''repository-no-action'') ex_params
          (ex_conn ex_db)) = Some (InvalidWebhookEventError ''missing action'')
   \<and> (\<exists>rawMsg. pg_data (snd (ProcessWebhookRequest ex_env ex_connector (ex_req ''repository-no-action'')
          ex_params (ex_conn ex_db))) =
        ex_db\<lparr>events := [NewEvent ex_env (ex_sub 1 ''raw'' Active) ''github'' ''raw'' None
                           (RawEvent ''d1'' ''repository-no-action'' rawMsg)]\<rparr>)"
proof -
  have p: "ParseWebHook ex_env ''repository-no-action'' ''{}'' =
             Inr (RepositoryEvent \<lparr>Action = None, Org = None, Repo = None\<rparr>)"
    by (simp add: ex_env_def)
  have d: "pg_data (ex_conn ex_db) = ex_db" "pg_fault (ex_conn ex_db) = (\<lambda>op. None)"
    "pg_log (ex_conn ex_db) = []"
    "events ex_db = []" "Def_Name ex_connector = ''github''"
    by (simp_all add: ex_conn_def ex_db_def ex_connector_def)
  have bad: "ValidatePayload ex_env ex_req_bad (WebhookSecret ex_env ex_connector ex_params) =
               Inl (ErrMsg ''payload signature check failed'')"
    by (simp add: ValidatePayload_def Header_Get_def ex_req_bad_def fromHexChar_def ex_env_def
          WebhookSecret_def ex_connector_def ex_params_def hex_EncodeToString_def hextable_def)
  have f: "fst (ProcessWebhookRequest ex_env ex_connector (ex_req ''repository-no-action'') ex_params
          (ex_conn ex_db)) = Some (InvalidWebhookEventError ''missing action'')"
    by (simp add: ProcessWebhookRequest_valid [OF ex_req_valid ex_json] ex_eval p d)
  note t = ProcessWebhookRequest_invalid [of ex_env "ex_req_bad" ex_connector ex_params "ex_conn ex_db"]
  note u = ProcessWebhookRequest_invalid [of ex_env "ex_req ''repository-no-action''" ex_connector
             ex_params "ex_conn ex_db"]
  from t bad have 1: "ProcessWebhookRequest ex_env ex_connector ex_req_bad ex_params (ex_conn ex_db) =
     (Some (ErrWrap ''invalid signature'' (ErrMsg ''payload signature check failed'')), ex_conn ex_db)"
    by blast
  from u f have "\<exists>rawMsg. pg_data (snd (ProcessWebhookRequest ex_env ex_connector
          (ex_req ''repository-no-action'') ex_params (ex_conn ex_db))) =
          (pg_data (ex_conn ex_db))\<lparr>events := events (pg_data (ex_conn ex_db))
             @ map (\<lambda>sub. NewEvent ex_env sub (Def_Name ex_connector) ''raw'' None
                            (RawEvent (DeliveryID (ex_req ''repository-no-action''))
                               (WebHookType (ex_req ''repository-no-action'')) rawMsg))
                 (matching_subscriptions (pg_data (ex_conn ex_db)) ''raw'' ex_params)\<rparr>"
    by blast
  then have 2: "\<exists>rawMsg. pg_data (snd (ProcessWebhookRequest ex_env ex_connector
          (ex_req ''repository-no-action'') ex_params (ex_conn ex_db))) =
        ex_db\<lparr>events := [NewEvent ex_env (ex_sub 1 ''raw'' Active) ''github'' ''raw'' None
                           (RawEvent ''d1'' ''repository-no-action'' rawMsg)]\<rparr>"
    by (simp add: d ex_matching ex_req_headers)
  from 1 f 2 show ?thesis by blast
qed

lemma dispatch_event_not_signature:
  "fst (dispatch_event E c event params pg1) \<noteq> Some (ErrWrap ''invalid signature'' err)"
  unfolding dispatch_event_def processWebhookEventPush_def
    processWebhookEventRepositoryCreated_def processWebhookEventRepositoryDeleted_def Let_def
  by (simp split: webhook_event.splits option.splits prod.splits)

lemma ProcessWebhookRequest_not_signature:
  assumes "ValidatePayload E req (WebhookSecret E c params) = Inr payload"
  shows "fst (ProcessWebhookRequest E c req params pg0) \<noteq> Some (ErrWrap ''invalid signature'' err)"
  using assms dispatch_event_not_signature
  by (simp add: ProcessWebhookRequest_def Let_def split: sum.splits prod.splits option.splits)

text \<open>
  Claim C7. The secret is a function of the webhook key and the target only: the hex
  encoding, in lower-case digits, of the HMAC-SHA256 of the target under the key. A
  request whose signature header is the one computed from this secret over the raw body
  passes the verification, and \<open>ProcessWebhookRequest\<close> does not fail with the
  signature error.
\<close>
theorem WebhookSecret_round_trip:
  "WebhookSecret E c params = hex_EncodeToString (hmac_sha256 E (webhookKey c) (Target E params))
   \<and> set (WebhookSecret E c params) \<subseteq> set ''0123456789abcdef''
   \<and> length (WebhookSecret E c params) = 2 * length (hmac_sha256 E (webhookKey c) (Target E params))
   \<and> (Header_Get req ''X-Hub-Signature-256'' =
         sign_body E (WebhookSecret E c params) (req_body req) \<longrightarrow>
       ValidatePayload E req (WebhookSecret E c params) = Inr (req_body req)
       \<and> (\<forall>err. fst (ProcessWebhookRequest E c req params pg0)
                   \<noteq> Some (ErrWrap ''invalid signature'' err)))"
proof -
  have a: "WebhookSecret E c params = hex_EncodeToString (hmac_sha256 E (webhookKey c) (Target E params))"
    by (simp add: WebhookSecret_def Let_def)
  have b: "set (WebhookSecret E c params) \<subseteq> set ''0123456789abcdef''"
    unfolding a using hex_EncodeToString_chars by (simp add: hextable_def)
  have l: "length (WebhookSecret E c params) = 2 * length (hmac_sha256 E (webhookKey c) (Target E params))"
    unfolding a by (rule hex_EncodeToString_length)
  have v: "Header_Get req ''X-Hub-Signature-256'' =
         sign_body E (WebhookSecret E c params) (req_body req) \<longrightarrow>
       ValidatePayload E req (WebhookSecret E c params) = Inr (req_body req)
       \<and> (\<forall>err. fst (ProcessWebhookRequest E c req params pg0)
                   \<noteq> Some (ErrWrap ''invalid signature'' err))"
    using ValidatePayload_signed ProcessWebhookRequest_not_signature by blast
  from a b l v show ?thesis by blast
qed

theorem WebhookSecret_round_trip_witness:
  "WebhookSecret ex_env ex_connector ex_params = ''6b61''
   \<and> Header_Get (ex_req ''repository'') ''X-Hub-Signature-256'' = ''sha256=367b''
   \<and> ValidatePayload ex_env (ex_req ''repository'') (WebhookSecret ex_env ex_connector ex_params)
       = Inr ''{}''"
proof -
  have s: "WebhookSecret ex_env ex_connector ex_params = ''6b61''"
    by (simp add: WebhookSecret_def ex_env_def ex_connector_def ex_params_def
          hex_EncodeToString_def hextable_def)
  have h: "Header_Get (ex_req ''repository'') ''X-Hub-Signature-256'' = ''sha256=367b''"
    by (simp add: Header_Get_def ex_req_def sign_body_def s)
       (simp add: ex_env_def hex_EncodeToString_def hextable_def)
  have g: "Header_Get (ex_req ''repository'') ''X-Hub-Signature-256'' =
         sign_body ex_env (WebhookSecret ex_env ex_connector ex_params) (req_body (ex_req ''repository''))"
    by (simp add: Header_Get_def ex_req_def)
  from WebhookSecret_round_trip [of ex_env ex_connector ex_params "ex_req ''repository''"] g
  have "ValidatePayload ex_env (ex_req ''repository'') (WebhookSecret ex_env ex_connector ex_params)
          = Inr (req_body (ex_req ''repository''))"
    by blast
  then have "ValidatePayload ex_env (ex_req ''repository'') (WebhookSecret ex_env ex_connector ex_params)
          = Inr ''{}''"
    by (simp add: ex_req_def)
  with s h show ?thesis by blast
qed

end
